theory Spec2Isabelle
  imports Main
begin

section \<open>Data model of the session provider\<close>

text \<open>
  The account record persisted per identity (\<^verbatim>\<open>SessionAccount\<close>, an alias of
  \<^verbatim>\<open>persisted.PersistedAccount\<close>). Optional fields of the source are options:
  \<open>None\<close> is JavaScript's \<^verbatim>\<open>undefined\<close>.
\<close>

record SessionAccount =
  service :: string
  did :: string
  handle :: string
  email :: "string option"
  emailConfirmed :: "bool option"
  deactivated :: "bool option"
  refreshJwt :: "string option"
  accessJwt :: "string option"

text \<open>The session object a protocol client holds (\<^verbatim>\<open>BskyAgent['session']\<close>).\<close>

record AtpSessionData =
  sess_did :: string
  sess_handle :: string
  sess_email :: "string option"
  sess_emailConfirmed :: "bool option"
  sess_accessJwt :: string
  sess_refreshJwt :: string

text \<open>
  The claims \<^verbatim>\<open>jwtDecode\<close> yields, as far as the provider reads them: the numeric
  \<^verbatim>\<open>exp\<close> claim and the \<^verbatim>\<open>scope\<close> claim, which may hold a string or anything else.
\<close>

datatype claim_value = ClaimString string | ClaimOther

record JwtPayload =
  jwt_exp :: "int option"
  jwt_scope :: "claim_value option"

datatype error =
  CredentialDecodeError
  | TransientNetworkError
  | AuthError
  | NoSessionEstablished

datatype AtpSessionEvent = EvCreate | EvCreateFailed | EvUpdate | EvExpired | EvNetworkError

text \<open>
  A protocol client built by the provider: its endpoint, the session it holds, the account
  its persist-session handler closes over (\<open>None\<close>: no handler installed yet), and the
  labelers header set on the instance.
\<close>

record BskyAgent =
  ag_service :: string
  ag_session :: "AtpSessionData option"
  ag_persistSession :: "SessionAccount option"
  ag_labelersHeader :: "string list"

text \<open>
  The active client is either the shared public client (\<^verbatim>\<open>PUBLIC_BSKY_AGENT\<close>, declared
  outside the provider; it never holds a session) or a client the provider built.
\<close>

datatype active_client = PUBLIC_BSKY_AGENT | Client BskyAgent

datatype remote_call =
  CreateAccountCall | UpsertProfileCall | ResolveHandleCall | ResumeSessionCall

text \<open>
  The provider's state: the React state cells (\<^verbatim>\<open>agent\<close>, \<^verbatim>\<open>accounts\<close>,
  \<^verbatim>\<open>isInitialLoad\<close>, \<^verbatim>\<open>isSwitchingAccounts\<close>), the \<^verbatim>\<open>isDirty\<close> ref, the static
  labeler configuration of \<^verbatim>\<open>BskyAgent.configure\<close>, and what the outside world observes:
  the remote calls issued on protocol clients in order, the number of session-dropped
  notifications emitted, and the rejections of promises nobody awaits.
\<close>

record state =
  agent :: active_client
  accounts :: "SessionAccount list"
  isInitialLoad :: bool
  isSwitchingAccounts :: bool
  isDirty :: bool
  appLabelers :: "string list"
  calls :: "remote_call list"
  sessionDropped :: nat
  unhandled :: "error list"

text \<open>An asynchronous operation either resolves or rejects; the state it leaves stays.\<close>

datatype outcome = Returned state | Threw error state

fun state_of :: "outcome \<Rightarrow> state" where
  "state_of (Returned s) = s"
| "state_of (Threw e s) = s"

fun rejected :: "outcome \<Rightarrow> bool" where
  "rejected (Returned s) = False"
| "rejected (Threw e s) = True"

text \<open>
  One call of the protocol client's \<^verbatim>\<open>resumeSession\<close>, seen from the provider: the
  handler invocations the client makes while the call runs, and how the call ends
  (\<open>Inr\<close>: resolved, with the session the client then holds; \<open>Inl\<close>: rejected).
\<close>

record attempt =
  fired :: "(AtpSessionEvent \<times> AtpSessionData option) list"
  result :: "error + AtpSessionData"

record CreateAccountProps =
  p_service :: string
  p_email :: string
  p_password :: string
  p_handle :: string
  p_inviteCode :: "string option"
  p_verificationPhone :: "string option"
  p_verificationCode :: "string option"

text \<open>
  Everything the provider imports and does not define: the token decoder (\<open>None\<close>: it
  throws), the clock, the test-user predicate, the default labeler, the local labeler
  cache, and the answers of the remote service. \<open>agent_resumeSession env i\<close> is what
  the \<open>i\<close>-th call of \<^verbatim>\<open>agent.resumeSession\<close> does; \<open>agent_upsertProfile\<close> is how the
  profile call ends (\<open>Some e\<close>: its promise rejects). A client keeps its endpoint as a
  \<^verbatim>\<open>URL\<close> object: \<open>URL_toString env s\<close> is \<^verbatim>\<open>new URL(s).toString()\<close>, the normalised
  form of the string \<open>s\<close> the client was built with.
\<close>

record env =
  jwtDecode :: "string \<Rightarrow> JwtPayload option"
  Date_now :: int
  IS_TEST_USER :: "string \<Rightarrow> bool"
  BSKY_LABELER_DID :: string
  resolveHandle :: "string option"
  readLabelers :: "string \<Rightarrow> string list option"
  agent_resumeSession :: "nat \<Rightarrow> attempt"
  agent_createAccount :: "CreateAccountProps \<Rightarrow> error + AtpSessionData option"
  agent_upsertProfile :: "error option"
  URL_toString :: "string \<Rightarrow> string"

section \<open>Token inspection\<close>

text \<open>JavaScript truthiness of an optional string: defined and not empty.\<close>

definition truthy :: "string option \<Rightarrow> bool" where
  "truthy x = (case x of None \<Rightarrow> False | Some s \<Rightarrow> s \<noteq> [])"

text \<open>
  \<^verbatim>\<open>isSessionDeactivated\<close>: the decoder is called outside any \<^verbatim>\<open>try\<close>, so its
  exception leaves the function.
\<close>

definition isSessionDeactivated :: "env \<Rightarrow> string option \<Rightarrow> error + bool" where
  "isSessionDeactivated env tok =
     (if truthy tok then
        (case jwtDecode env (the tok) of
           None \<Rightarrow> Inl CredentialDecodeError
         | Some sessData \<Rightarrow>
             Inr (jwt_scope sessData = Some (ClaimString ''com.atproto.deactivated'')))
      else Inr False)"

text \<open>
  The expiry check at the head of \<^verbatim>\<open>initSession\<close>; here the decoder runs inside
  \<^verbatim>\<open>try\<close>/\<^verbatim>\<open>catch\<close>, so an undecodable token only leaves the flag \<^verbatim>\<open>false\<close>.
\<close>

definition canReusePrevSession :: "env \<Rightarrow> SessionAccount \<Rightarrow> bool" where
  "canReusePrevSession env account =
     (if truthy (accessJwt account) then
        (case jwtDecode env (the (accessJwt account)) of
           None \<Rightarrow> False
         | Some decoded \<Rightarrow>
             (case jwt_exp decoded of
                None \<Rightarrow> False
              | Some e \<Rightarrow>
                  if e \<noteq> 0 then
                    (let didExpire = (Date_now env \<ge> e * 1000) in \<not> didExpire)
                  else False))
      else False)"

section \<open>Conversions between accounts and client sessions\<close>

text \<open>
  \<^verbatim>\<open>agentToSessionAccount\<close>: no account without a session; otherwise the session's
  fields, the deactivation flag read from the access token, and as \<^verbatim>\<open>service\<close> the
  client's endpoint as \<^verbatim>\<open>agent.service.toString()\<close> gives it.
\<close>

definition agentToSessionAccount :: "env \<Rightarrow> BskyAgent \<Rightarrow> error + SessionAccount option" where
  "agentToSessionAccount env a =
     (case ag_session a of
        None \<Rightarrow> Inr None
      | Some s \<Rightarrow>
          (case isSessionDeactivated env (Some (sess_accessJwt s)) of
             Inl e \<Rightarrow> Inl e
           | Inr d \<Rightarrow>
               Inr (Some \<lparr> service = URL_toString env (ag_service a),
                    did = sess_did s, handle = sess_handle s,
                    email = sess_email s, emailConfirmed = sess_emailConfirmed s,
                    deactivated = Some d,
                    refreshJwt = Some (sess_refreshJwt s),
                    accessJwt = Some (sess_accessJwt s) \<rparr>)))"

text \<open>\<^verbatim>\<open>x || ''\<close> on an optional string.\<close>

definition or_empty :: "string option \<Rightarrow> string" where
  "or_empty x = (if truthy x then the x else [])"

definition sessionAccountToAgentSession :: "SessionAccount \<Rightarrow> AtpSessionData" where
  "sessionAccountToAgentSession account =
     \<lparr> sess_did = did account, sess_handle = handle account, sess_email = email account,
       sess_emailConfirmed = emailConfirmed account,
       sess_accessJwt = or_empty (accessJwt account),
       sess_refreshJwt = or_empty (refreshJwt account) \<rparr>"

text \<open>The memoised \<^verbatim>\<open>currentAccount\<close>: derived from the active client.\<close>

definition currentAccount :: "env \<Rightarrow> state \<Rightarrow> error + SessionAccount option" where
  "currentAccount env st =
     (case agent st of
        PUBLIC_BSKY_AGENT \<Rightarrow> Inr None
      | Client a \<Rightarrow> agentToSessionAccount env a)"

section \<open>Roster and active-client primitives\<close>

definition persistNextUpdate :: "state \<Rightarrow> state" where
  "persistNextUpdate st = st\<lparr>isDirty := True\<rparr>"

definition setAgent :: "active_client \<Rightarrow> state \<Rightarrow> state" where
  "setAgent a st = st\<lparr>agent := a\<rparr>"

definition setAccounts :: "(SessionAccount list \<Rightarrow> SessionAccount list) \<Rightarrow> state \<Rightarrow> state" where
  "setAccounts f st = st\<lparr>accounts := f (accounts st)\<rparr>"

definition upsertAccount :: "SessionAccount \<Rightarrow> state \<Rightarrow> state" where
  "upsertAccount account st =
     setAccounts (\<lambda>accs. account # filter (\<lambda>a. did a \<noteq> did account) accs)
       (persistNextUpdate st)"

definition clearCurrentAccount :: "env \<Rightarrow> state \<Rightarrow> state" where
  "clearCurrentAccount env st =
     (setAgent PUBLIC_BSKY_AGENT (persistNextUpdate st))\<lparr>appLabelers := [BSKY_LABELER_DID env]\<rparr>"

definition removeAccount :: "SessionAccount \<Rightarrow> state \<Rightarrow> state" where
  "removeAccount account st =
     setAccounts (\<lambda>accs. filter (\<lambda>a. did a \<noteq> did account) accs) (persistNextUpdate st)"

definition logout :: "env \<Rightarrow> state \<Rightarrow> state" where
  "logout env st =
     setAccounts (\<lambda>accs. map (\<lambda>a. a\<lparr>accessJwt := None, refreshJwt := None\<rparr>) accs)
       (persistNextUpdate (clearCurrentAccount env st))"

section \<open>The persist-session handler\<close>

text \<open>\<^verbatim>\<open>x || d\<close> for an optional string, an optional string pair and optional booleans.\<close>

definition js_or :: "string option \<Rightarrow> string \<Rightarrow> string" where
  "js_or x d = (if truthy x then the x else d)"

definition js_or_opt :: "string option \<Rightarrow> string option \<Rightarrow> string option" where
  "js_or_opt x y = (if truthy x then x else y)"

definition js_or_bool :: "bool option \<Rightarrow> bool option \<Rightarrow> bool option" where
  "js_or_bool x y = (if x = Some True then x else y)"

text \<open>
  The record \<^verbatim>\<open>persistSession\<close> builds from the account it closes over and the
  session of the event (\<open>None\<close>: the event carries no session).
\<close>

definition refreshedAccount ::
  "env \<Rightarrow> SessionAccount \<Rightarrow> AtpSessionData option \<Rightarrow> error + SessionAccount" where
  "refreshedAccount env account session =
     (case isSessionDeactivated env (map_option sess_accessJwt session) of
        Inl e \<Rightarrow> Inl e
      | Inr d \<Rightarrow>
          Inr \<lparr> service = service account,
                did = js_or (map_option sess_did session) (did account),
                handle = js_or (map_option sess_handle session) (handle account),
                email = js_or_opt (Option.bind session sess_email) (email account),
                emailConfirmed =
                  js_or_bool (Option.bind session sess_emailConfirmed) (emailConfirmed account),
                deactivated = Some d,
                refreshJwt = map_option sess_refreshJwt session,
                accessJwt = map_option sess_accessJwt session \<rparr>)"

definition emitSessionDropped :: "state \<Rightarrow> state" where
  "emitSessionDropped st = st\<lparr>sessionDropped := Suc (sessionDropped st)\<rparr>"

text \<open>
  \<^verbatim>\<open>createPersistSessionHandler(account, persistSessionCallback, {networkErrorCallback})\<close>
  applied to an event and its session. The only step that can throw is the decoding inside
  \<^verbatim>\<open>isSessionDeactivated\<close>, which runs before any effect.
\<close>

definition persistSession ::
  "env \<Rightarrow> SessionAccount \<Rightarrow> (bool \<Rightarrow> SessionAccount \<Rightarrow> state \<Rightarrow> state) \<Rightarrow>
   (state \<Rightarrow> state) option \<Rightarrow> AtpSessionEvent \<Rightarrow> AtpSessionData option \<Rightarrow> state \<Rightarrow> outcome" where
  "persistSession env account persistSessionCallback networkErrorCallback event session st =
     (let expired = (event = EvExpired \<or> event = EvCreateFailed) in
      if event = EvNetworkError then
        Returned (case networkErrorCallback of None \<Rightarrow> st | Some cb \<Rightarrow> cb st)
      else
        (case refreshedAccount env account session of
           Inl e \<Rightarrow> Threw e st
         | Inr refreshed \<Rightarrow>
             Returned (persistSessionCallback expired refreshed
               (if expired then emitSessionDropped st else st))))"

text \<open>
  The callback pair every install site passes (\<^verbatim>\<open>createAccount\<close>, \<^verbatim>\<open>login\<close>,
  \<^verbatim>\<open>initSession\<close>): upsert, then clear the current account when expired; and
  \<^verbatim>\<open>clearCurrentAccount\<close> as the network-error callback.
\<close>

definition persistSessionCallback :: "env \<Rightarrow> bool \<Rightarrow> SessionAccount \<Rightarrow> state \<Rightarrow> state" where
  "persistSessionCallback env expired refreshed st =
     (let st1 = upsertAccount refreshed st in
      if expired then clearCurrentAccount env st1 else st1)"

definition installedHandler ::
  "env \<Rightarrow> SessionAccount \<Rightarrow> AtpSessionEvent \<Rightarrow> AtpSessionData option \<Rightarrow> state \<Rightarrow> outcome" where
  "installedHandler env account =
     persistSession env account (persistSessionCallback env) (Some (clearCurrentAccount env))"

section \<open>Moderation configuration\<close>

definition configureModeration ::
  "env \<Rightarrow> BskyAgent \<Rightarrow> SessionAccount \<Rightarrow> state \<Rightarrow> BskyAgent \<times> state" where
  "configureModeration env a account st =
     (if IS_TEST_USER env (handle account) then
        (let st1 = st\<lparr>calls := calls st @ [ResolveHandleCall]\<rparr> in
         if truthy (resolveHandle env)
         then (a, st1\<lparr>appLabelers := [the (resolveHandle env)]\<rparr>)
         else (a, st1))
      else
        (let st1 = st\<lparr>appLabelers := [BSKY_LABELER_DID env]\<rparr> in
         case readLabelers env (did account) of
           None \<Rightarrow> (a, st1)
         | Some labelerDids \<Rightarrow>
             (a\<lparr>ag_labelersHeader := filter (\<lambda>d. d \<noteq> BSKY_LABELER_DID env) labelerDids\<rparr>,
              st1)))"

section \<open>Resuming a session over the network\<close>

text \<open>
  The handler a client calls: the one installed on it, if any. An exception of the handler
  is raised inside the client; what the client does next is part of the attempt's answer.
\<close>

definition agentHandler ::
  "env \<Rightarrow> BskyAgent \<Rightarrow> AtpSessionEvent \<Rightarrow> AtpSessionData option \<Rightarrow> state \<Rightarrow> outcome" where
  "agentHandler env a event session st =
     (case ag_persistSession a of
        None \<Rightarrow> Returned st
      | Some account \<Rightarrow> installedHandler env account event session st)"

fun fireEvents ::
  "env \<Rightarrow> BskyAgent \<Rightarrow> (AtpSessionEvent \<times> AtpSessionData option) list \<Rightarrow> state \<Rightarrow> state" where
  "fireEvents env a [] st = st"
| "fireEvents env a ((event, session) # rest) st =
     fireEvents env a rest (state_of (agentHandler env a event session st))"

text \<open>
  The \<open>i\<close>-th call of \<^verbatim>\<open>agent.resumeSession(prevSession)\<close>: one remote call, the handler
  invocations of the attempt, and the client with its session set when the call resolves.
\<close>

definition clientResumeSession ::
  "env \<Rightarrow> BskyAgent \<Rightarrow> nat \<Rightarrow> state \<Rightarrow> state \<times> (error + BskyAgent)" where
  "clientResumeSession env a i st =
     (let att = agent_resumeSession env i;
          st1 = st\<lparr>calls := calls st @ [ResumeSessionCall]\<rparr>;
          st2 = fireEvents env a (fired att) st1
      in (st2, (case result att of
                  Inl e \<Rightarrow> Inl e
                | Inr s \<Rightarrow> Inr (a\<lparr>ag_session := Some s\<rparr>))))"

text \<open>
  Modelled from the spec: \<^verbatim>\<open>isNetworkError\<close> and \<^verbatim>\<open>networkRetry\<close> come from modules
  that are not part of the sources. The spec says of the resume call that it is "retried once
  on transient failure" and that the round trip is "bounded by a single retry with no backoff
  beyond the one retry": \<open>networkRetry n fn\<close> runs \<open>fn\<close>, runs it again after a transient
  failure while retries are left, and passes every other failure on. The index counts the
  attempts.
\<close>

definition isNetworkError :: "error \<Rightarrow> bool" where
  "isNetworkError e = (e = TransientNetworkError)"

fun networkRetry ::
  "nat \<Rightarrow> (nat \<Rightarrow> state \<Rightarrow> state \<times> (error + 'a)) \<Rightarrow> nat \<Rightarrow> state \<Rightarrow> state \<times> (error + 'a)" where
  "networkRetry 0 fn i st = fn i st"
| "networkRetry (Suc n) fn i st =
     (case fn i st of
        (st', Inr v) \<Rightarrow> (st', Inr v)
      | (st', Inl e) \<Rightarrow>
          if isNetworkError e then networkRetry n fn (Suc i) st' else (st', Inl e))"

section \<open>Account lifecycle operations\<close>

text \<open>
  \<^verbatim>\<open>initSession\<close>: a new client for the account's service with the handler installed,
  the expiry check, \<^verbatim>\<open>configureModeration\<close>, and then either the reuse of the previous
  session (\<^verbatim>\<open>prevSession\<close> is the account with both tokens defaulted to the empty
  string; the client reads of it what \<open>sessionAccountToAgentSession\<close> keeps) or the resume
  over the network under \<^verbatim>\<open>networkRetry(1, ...)\<close>, whose failure is caught and answered
  with \<^verbatim>\<open>clearCurrentAccount\<close>.
\<close>

definition initSession :: "env \<Rightarrow> SessionAccount \<Rightarrow> state \<Rightarrow> outcome" where
  "initSession env account st =
     (let agent0 = \<lparr> ag_service = service account, ag_session = None,
                     ag_persistSession = Some account, ag_labelersHeader = [] \<rparr>;
          prevSession = sessionAccountToAgentSession account;
          reuse = canReusePrevSession env account;
          (agent1, st1) = configureModeration env agent0 account st
      in if reuse then
           Returned (upsertAccount account
             (setAgent (Client (agent1\<lparr>ag_session := Some prevSession\<rparr>)) st1))
         else
           (case networkRetry 1 (clientResumeSession env agent1) 0 st1 of
              (st2, Inr agent2) \<Rightarrow> Returned (setAgent (Client agent2) st2)
            | (st2, Inl e) \<Rightarrow> Returned (clearCurrentAccount env st2)))"

text \<open>
  \<^verbatim>\<open>resumeSession\<close> catches what \<^verbatim>\<open>initSession\<close> throws and clears
  \<^verbatim>\<open>isInitialLoad\<close> in its \<^verbatim>\<open>finally\<close>; \<^verbatim>\<open>selectAccount\<close> resets
  \<^verbatim>\<open>isSwitchingAccounts\<close> on both paths and throws again what it caught.
\<close>

definition resumeSession :: "env \<Rightarrow> SessionAccount option \<Rightarrow> state \<Rightarrow> outcome" where
  "resumeSession env account st =
     (case account of
        None \<Rightarrow> Returned (st\<lparr>isInitialLoad := False\<rparr>)
      | Some acc \<Rightarrow>
          (case initSession env acc st of
             Returned s \<Rightarrow> Returned (s\<lparr>isInitialLoad := False\<rparr>)
           | Threw e s \<Rightarrow> Returned (s\<lparr>isInitialLoad := False\<rparr>)))"

definition selectAccount :: "env \<Rightarrow> SessionAccount \<Rightarrow> state \<Rightarrow> outcome" where
  "selectAccount env account st =
     (case initSession env account (st\<lparr>isSwitchingAccounts := True\<rparr>) of
        Returned s \<Rightarrow> Returned (s\<lparr>isSwitchingAccounts := False\<rparr>)
      | Threw e s \<Rightarrow> Threw e (s\<lparr>isSwitchingAccounts := False\<rparr>))"

text \<open>
  The profile call of \<^verbatim>\<open>createAccount\<close> is not awaited: it is issued, and a rejection
  of its promise reaches nobody.
\<close>

definition upsertProfile :: "env \<Rightarrow> state \<Rightarrow> state" where
  "upsertProfile env st =
     st\<lparr>calls := calls st @ [UpsertProfileCall],
        unhandled := unhandled st @ (case agent_upsertProfile env of None \<Rightarrow> [] | Some e \<Rightarrow> [e])\<rparr>"

definition createAccount :: "env \<Rightarrow> CreateAccountProps \<Rightarrow> state \<Rightarrow> outcome" where
  "createAccount env props st =
     (let agent0 = \<lparr> ag_service = p_service props, ag_session = None,
                     ag_persistSession = None, ag_labelersHeader = [] \<rparr>;
          st1 = st\<lparr>calls := calls st @ [CreateAccountCall]\<rparr>
      in case agent_createAccount env props of
           Inl e \<Rightarrow> Threw e st1
         | Inr None \<Rightarrow> Threw NoSessionEstablished st1
         | Inr (Some sess) \<Rightarrow>
             (let agent1 = agent0\<lparr>ag_session := Some sess\<rparr> in
              case isSessionDeactivated env (Some (sess_accessJwt sess)) of
                Inl e \<Rightarrow> Threw e st1
              | Inr isDeactivated \<Rightarrow>
                  (let st2 = (if \<not> isDeactivated then upsertProfile env st1 else st1) in
                   case agentToSessionAccount env agent1 of
                     Inl e \<Rightarrow> Threw e st2
                   | Inr None \<Rightarrow> Threw NoSessionEstablished st2
                   | Inr (Some account) \<Rightarrow>
                       (let (agent2, st3) = configureModeration env agent1 account st2;
                            agent3 = agent2\<lparr>ag_persistSession := Some account\<rparr>
                        in Returned (upsertAccount account (setAgent (Client agent3) st3))))))"

section \<open>Reconciliation with the persisted snapshot\<close>

record PersistedSession =
  ps_accounts :: "SessionAccount list"
  ps_currentAccount :: "SessionAccount option"

text \<open>
  Modelled from the spec: \<^verbatim>\<open>agent.clone()\<close> belongs to the protocol client; the spec
  lists it as \<^verbatim>\<open>cloneWithSameCredentials\<close>, a new handle on the same endpoint and session.
\<close>

definition clone :: "BskyAgent \<Rightarrow> BskyAgent" where
  "clone a = a"

text \<open>
  The callback given to \<^verbatim>\<open>persisted.onUpdate\<close>, run on the snapshot \<^verbatim>\<open>persisted.get\<close>
  returns. It closes over the memoised \<^verbatim>\<open>currentAccount\<close>; a render in which deriving
  it throws installs no callback. With the public client active there is no current
  account, so the splice branch always finds a client the provider built.
\<close>

definition onUpdate :: "env \<Rightarrow> PersistedSession \<Rightarrow> state \<Rightarrow> outcome" where
  "onUpdate env persistedSession st =
     (case currentAccount env st of
        Inl e \<Rightarrow> Threw e st
      | Inr cur \<Rightarrow>
          (let st1 = setAccounts (\<lambda>_. ps_accounts persistedSession) st in
           case ps_currentAccount persistedSession of
             Some pc \<Rightarrow>
               if truthy (refreshJwt pc) then
                 (if Some (did pc) \<noteq> map_option did cur then initSession env pc st1
                  else
                    (case agent st1 of
                       Client a \<Rightarrow>
                         Returned (setAgent
                           (Client (clone (a\<lparr>ag_session := Some (sessionAccountToAgentSession pc)\<rparr>)))
                           st1)
                     | PUBLIC_BSKY_AGENT \<Rightarrow> Returned st1))
               else Returned st1
           | None \<Rightarrow>
               if cur \<noteq> None then Returned (clearCurrentAccount env st1) else Returned st1))"

section \<open>Observations on runs\<close>

text \<open>How many \<^verbatim>\<open>resumeSession\<close> calls have been issued on protocol clients.\<close>

definition resumeCalls :: "state \<Rightarrow> nat" where
  "resumeCalls st = length (filter (\<lambda>c. c = ResumeSessionCall) (calls st))"

text \<open>
  The resume of \<^verbatim>\<open>initSession\<close> fails terminally: the first call is rejected, and
  when that rejection is a transient one, the retry is rejected as well.
\<close>

definition resumeFailsTerminally :: "env \<Rightarrow> bool" where
  "resumeFailsTerminally env =
     (case result (agent_resumeSession env 0) of
        Inr s \<Rightarrow> False
      | Inl e \<Rightarrow>
          (if isNetworkError e then
             (case result (agent_resumeSession env 1) of Inr s \<Rightarrow> False | Inl e' \<Rightarrow> True)
           else True))"

section \<open>Fixtures\<close>

text \<open>
  Concrete accounts, tokens and answers of the outside world, used to run the operations.
  The decoder is a table: a token outside it does not decode. Time is in milliseconds,
  \<^verbatim>\<open>exp\<close> in seconds.
\<close>

definition tokenTable :: "string \<Rightarrow> JwtPayload option" where
  "tokenTable t =
     (if t = ''J1'' then Some \<lparr> jwt_exp = Some 2000, jwt_scope = None \<rparr>
      else if t = ''Jold'' then Some \<lparr> jwt_exp = Some 1, jwt_scope = None \<rparr>
      else if t = ''Jdeact'' then
        Some \<lparr> jwt_exp = Some 2000, jwt_scope = Some (ClaimString ''com.atproto.deactivated'') \<rparr>
      else if t = ''Jnoexp'' then Some \<lparr> jwt_exp = None, jwt_scope = None \<rparr>
      else None)"

definition endsWithTest :: "string \<Rightarrow> bool" where
  "endsWithTest h = (take 5 (rev h) = rev ''.test'')"

definition failingAttempt :: attempt where
  "failingAttempt = \<lparr> fired = [(EvNetworkError, None)], result = Inl TransientNetworkError \<rparr>"

definition sessionOf :: "string \<Rightarrow> string \<Rightarrow> string \<Rightarrow> AtpSessionData" where
  "sessionOf d h tok =
     \<lparr> sess_did = d, sess_handle = h, sess_email = None, sess_emailConfirmed = None,
       sess_accessJwt = tok, sess_refreshJwt = ''R2'' \<rparr>"

text \<open>The normalised form of the endpoints used here: a bare origin gets its slash.\<close>

definition hrefTable :: "string \<Rightarrow> string" where
  "hrefTable s =
     (if s = ''https://ex.test'' then ''https://ex.test/''
      else if s = ''https://bsky.social'' then ''https://bsky.social/''
      else s)"

definition env0 :: env where
  "env0 =
     \<lparr> jwtDecode = tokenTable, Date_now = 1000000, IS_TEST_USER = endsWithTest,
       BSKY_LABELER_DID = ''did:plc:labeler'', resolveHandle = Some ''did:plc:mod'',
       readLabelers = (\<lambda>_. None), agent_resumeSession = (\<lambda>_. failingAttempt),
       agent_createAccount = (\<lambda>p. Inr (Some (sessionOf ''did:plc:C'' (p_handle p) ''Jdeact''))),
       agent_upsertProfile = Some AuthError, URL_toString = hrefTable \<rparr>"

definition alice :: SessionAccount where
  "alice =
     \<lparr> service = ''https://ex.test/'', did = ''did:plc:A'', handle = ''alice.ex.test'',
       email = Some ''alice@ex.test'', emailConfirmed = Some True, deactivated = Some False,
       refreshJwt = Some ''R1'', accessJwt = Some ''J1'' \<rparr>"

definition bob :: SessionAccount where
  "bob =
     \<lparr> service = ''https://bsky.social/'', did = ''did:plc:B'', handle = ''bob.bsky.social'',
       email = None, emailConfirmed = None, deactivated = Some False,
       refreshJwt = Some ''R0'', accessJwt = Some ''Jold'' \<rparr>"

definition dave :: SessionAccount where
  "dave =
     \<lparr> service = ''https://bsky.social/'', did = ''did:plc:D'', handle = ''dave.bsky.social'',
       email = None, emailConfirmed = None, deactivated = Some False,
       refreshJwt = Some ''R3'', accessJwt = Some ''Jnoexp'' \<rparr>"

definition carolProps :: CreateAccountProps where
  "carolProps =
     \<lparr> p_service = ''https://bsky.social'', p_email = ''carol@bsky.social'',
       p_password = ''pw'', p_handle = ''carol.bsky.social'', p_inviteCode = None,
       p_verificationPhone = None, p_verificationCode = None \<rparr>"

definition bobSignedOut :: SessionAccount where
  "bobSignedOut = bob\<lparr>refreshJwt := None, accessJwt := None\<rparr>"

definition aliceRefreshed :: SessionAccount where
  "aliceRefreshed = alice\<lparr>refreshJwt := Some ''R9'', accessJwt := Some ''J1''\<rparr>"

definition state0 :: state where
  "state0 =
     \<lparr> agent = PUBLIC_BSKY_AGENT, accounts = [], isInitialLoad = True,
       isSwitchingAccounts = False, isDirty = False, appLabelers = [], calls = [],
       sessionDropped = 0, unhandled = [] \<rparr>"

text \<open>The state in which \<open>alice\<close> is signed in and \<open>bob\<close> is a second roster entry.\<close>

definition aliceAgent :: BskyAgent where
  "aliceAgent =
     \<lparr> ag_service = ''https://ex.test/'',
       ag_session = Some (sessionAccountToAgentSession alice),
       ag_persistSession = Some alice, ag_labelersHeader = [] \<rparr>"

definition stateAlice :: state where
  "stateAlice = state0\<lparr>agent := Client aliceAgent, accounts := [alice, bob]\<rparr>"

section \<open>How the operations act on the state\<close>

lemma agentHandler_preserves:
  assumes "\<And>r s. P s \<Longrightarrow> P (upsertAccount r s)"
    and "\<And>s. P s \<Longrightarrow> P (clearCurrentAccount env s)"
    and "\<And>s. P s \<Longrightarrow> P (emitSessionDropped s)"
    and "P st"
  shows "P (state_of (agentHandler env a ev sess st))"
  using assms
  by (auto simp: agentHandler_def installedHandler_def persistSession_def
      persistSessionCallback_def Let_def split: option.splits sum.splits)

lemma fireEvents_preserves:
  assumes "\<And>r s. P s \<Longrightarrow> P (upsertAccount r s)"
    and "\<And>s. P s \<Longrightarrow> P (clearCurrentAccount env s)"
    and "\<And>s. P s \<Longrightarrow> P (emitSessionDropped s)"
    and "P st"
  shows "P (fireEvents env a evs st)"
  using assms(4)
proof (induction evs arbitrary: st)
  case Nil
  then show ?case by simp
next
  case (Cons x evs)
  obtain ev sess where x: "x = (ev, sess)" by (cases x)
  have "P (state_of (agentHandler env a ev sess st))"
    using agentHandler_preserves [of P env st a ev sess] assms(1-3) Cons.prems by blast
  then show ?case using Cons.IH x by simp
qed

lemma networkRetry_preserves:
  assumes "\<And>i s. P s \<Longrightarrow> P (fst (fn i s))" and "P st"
  shows "P (fst (networkRetry n fn i st))"
  using assms(2)
proof (induction n arbitrary: i st)
  case 0
  then show ?case using assms(1) by simp
next
  case (Suc n)
  obtain s' r where f: "fn i st = (s', r)" by (cases "fn i st")
  have ps': "P s'" using assms(1) [of st i] Suc.prems f by simp
  show ?case
  proof (cases r)
    case (Inl e)
    then show ?thesis using f ps' Suc.IH [of s' "Suc i"] by simp
  next
    case (Inr v)
    then show ?thesis using f ps' by simp
  qed
qed


lemma clientResumeSession_preserves:
  assumes "\<And>r s. P s \<Longrightarrow> P (upsertAccount r s)"
    and "\<And>s. P s \<Longrightarrow> P (clearCurrentAccount env s)"
    and "\<And>s. P s \<Longrightarrow> P (emitSessionDropped s)"
    and "\<And>s. P s \<Longrightarrow> P (s\<lparr>calls := calls s @ [ResumeSessionCall]\<rparr>)"
    and "P st"
  shows "P (fst (clientResumeSession env a i st))"
  unfolding clientResumeSession_def Let_def fst_conv
  by (rule fireEvents_preserves) (use assms in auto)

lemma clientResumeSession_calls:
  "calls (fst (clientResumeSession env a i st)) = calls st @ [ResumeSessionCall]"
  unfolding clientResumeSession_def Let_def fst_conv
  by (rule fireEvents_preserves [where P = "\<lambda>s. calls s = calls st @ [ResumeSessionCall]"])
    (simp_all add: upsertAccount_def clearCurrentAccount_def emitSessionDropped_def
      setAccounts_def persistNextUpdate_def setAgent_def)

lemma clientResumeSession_result:
  "snd (clientResumeSession env a i st) =
     (case result (agent_resumeSession env i) of
        Inl e \<Rightarrow> Inl e
      | Inr s \<Rightarrow> Inr (a\<lparr>ag_session := Some s\<rparr>))"
  by (simp add: clientResumeSession_def Let_def)

lemma configureModeration_state:
  "accounts (snd (configureModeration env a account st)) = accounts st"
  "agent (snd (configureModeration env a account st)) = agent st"
  "isDirty (snd (configureModeration env a account st)) = isDirty st"
  "isInitialLoad (snd (configureModeration env a account st)) = isInitialLoad st"
  "isSwitchingAccounts (snd (configureModeration env a account st)) = isSwitchingAccounts st"
  "sessionDropped (snd (configureModeration env a account st)) = sessionDropped st"
  "unhandled (snd (configureModeration env a account st)) = unhandled st"
  "calls (snd (configureModeration env a account st)) =
     calls st @ (if IS_TEST_USER env (handle account) then [ResolveHandleCall] else [])"
  by (simp_all add: configureModeration_def Let_def split: option.splits)

lemma configureModeration_agent:
  "ag_service (fst (configureModeration env a account st)) = ag_service a"
  "ag_session (fst (configureModeration env a account st)) = ag_session a"
  "ag_persistSession (fst (configureModeration env a account st)) = ag_persistSession a"
  by (simp_all add: configureModeration_def Let_def split: option.splits)

text \<open>The resume path of initSession, one attempt after the other.\<close>

lemma initSession_resume_path:
  assumes "\<not> canReusePrevSession env account"
    and "configureModeration env
           \<lparr> ag_service = service account, ag_session = None,
             ag_persistSession = Some account, ag_labelersHeader = [] \<rparr> account st = (a1, st1)"
    and "clientResumeSession env a1 0 st1 = (st2, r0)"
    and "clientResumeSession env a1 1 st2 = (st3, r1)"
  shows "initSession env account st =
     (case r0 of
        Inr a2 \<Rightarrow> Returned (setAgent (Client a2) st2)
      | Inl e \<Rightarrow>
          if isNetworkError e then
            (case r1 of
               Inr a3 \<Rightarrow> Returned (setAgent (Client a3) st3)
             | Inl e' \<Rightarrow> Returned (clearCurrentAccount env st3))
          else Returned (clearCurrentAccount env st2))"
  using assms
  by (simp add: initSession_def Let_def split: sum.splits)

lemma cannot_reuse:
  assumes "\<not> truthy (accessJwt account)
     \<or> jwtDecode env (the (accessJwt account)) = None
     \<or> (\<exists>c e. jwtDecode env (the (accessJwt account)) = Some c \<and> jwt_exp c = Some e
           \<and> Date_now env \<ge> e * 1000)"
  shows "\<not> canReusePrevSession env account"
  using assms by (auto simp: canReusePrevSession_def Let_def split: option.splits)


lemma resumeCalls_step:
  "resumeCalls (fst (clientResumeSession env a i st)) = Suc (resumeCalls st)"
  by (simp add: resumeCalls_def clientResumeSession_calls)

lemma initSession_preserves:
  assumes "\<And>r s. P s \<Longrightarrow> P (upsertAccount r s)"
    and "\<And>s. P s \<Longrightarrow> P (clearCurrentAccount env s)"
    and "\<And>s. P s \<Longrightarrow> P (emitSessionDropped s)"
    and "\<And>s c. P s \<Longrightarrow> P (s\<lparr>calls := calls s @ [c]\<rparr>)"
    and "\<And>s l. P s \<Longrightarrow> P (s\<lparr>appLabelers := l\<rparr>)"
    and "\<And>s c. P s \<Longrightarrow> P (setAgent c s)"
    and "P st"
  shows "P (state_of (initSession env account st))"
proof -
  let ?a0 = "\<lparr> ag_service = service account, ag_session = None,
               ag_persistSession = Some account, ag_labelersHeader = [] \<rparr>"
  obtain a1 st1 where cm: "configureModeration env ?a0 account st = (a1, st1)"
    by (cases "configureModeration env ?a0 account st")
  have p1: "P st1"
    using cm assms(4,5,7)
    by (auto simp: configureModeration_def Let_def split: if_splits option.splits)
  obtain st2 r where nr: "networkRetry 1 (clientResumeSession env a1) 0 st1 = (st2, r)"
    by (cases "networkRetry 1 (clientResumeSession env a1) 0 st1")
  have "P (fst (networkRetry 1 (clientResumeSession env a1) 0 st1))"
    by (rule networkRetry_preserves, rule clientResumeSession_preserves)
      (use assms p1 in auto)
  then have p2: "P st2" using nr by simp
  show ?thesis
    using cm nr p1 p2 assms(1,2,6)
    by (cases r) (simp_all add: initSession_def Let_def)
qed

lemma initSession_returns: "\<not> rejected (initSession env account st)"
  by (simp add: initSession_def Let_def split: prod.splits sum.splits)

lemma initSession_isSwitchingAccounts:
  "isSwitchingAccounts (state_of (initSession env account st)) = isSwitchingAccounts st"
  by (rule initSession_preserves
      [where P = "\<lambda>s. isSwitchingAccounts s = isSwitchingAccounts st"])
    (simp_all add: upsertAccount_def clearCurrentAccount_def emitSessionDropped_def
      setAccounts_def persistNextUpdate_def setAgent_def)

lemma initSession_isInitialLoad:
  "isInitialLoad (state_of (initSession env account st)) = isInitialLoad st"
  by (rule initSession_preserves
      [where P = "\<lambda>s. isInitialLoad s = isInitialLoad st"])
    (simp_all add: upsertAccount_def clearCurrentAccount_def emitSessionDropped_def
      setAccounts_def persistNextUpdate_def setAgent_def)

lemma distinct_upsertAccount:
  "distinct (map did (accounts s)) \<Longrightarrow> distinct (map did (accounts (upsertAccount r s)))"
  by (auto simp: upsertAccount_def setAccounts_def persistNextUpdate_def distinct_map_filter)

lemma initSession_distinct:
  assumes "distinct (map did (accounts st))"
  shows "distinct (map did (accounts (state_of (initSession env account st))))"
  by (rule initSession_preserves [where P = "\<lambda>s. distinct (map did (accounts s))"])
    (use assms in \<open>simp_all add: distinct_upsertAccount clearCurrentAccount_def
      emitSessionDropped_def persistNextUpdate_def setAgent_def\<close>)


section \<open>Full sign-out\<close>

text \<open>
  C7. \<^verbatim>\<open>logout\<close> keeps the roster's length and, entry by entry, every field but the two
  credentials, which it sets to \<^verbatim>\<open>undefined\<close> on every entry; the active client becomes
  the public client.
\<close>

theorem logout_clears_credentials_keeps_entries:
  "length (accounts (logout env st)) = length (accounts st)
   \<and> map did (accounts (logout env st)) = map did (accounts st)
   \<and> map service (accounts (logout env st)) = map service (accounts st)
   \<and> map handle (accounts (logout env st)) = map handle (accounts st)
   \<and> map email (accounts (logout env st)) = map email (accounts st)
   \<and> map emailConfirmed (accounts (logout env st)) = map emailConfirmed (accounts st)
   \<and> map deactivated (accounts (logout env st)) = map deactivated (accounts st)
   \<and> map accessJwt (accounts (logout env st)) = replicate (length (accounts st)) None
   \<and> map refreshJwt (accounts (logout env st)) = replicate (length (accounts st)) None
   \<and> agent (logout env st) = PUBLIC_BSKY_AGENT"
  by (simp add: logout_def setAccounts_def persistNextUpdate_def clearCurrentAccount_def
      setAgent_def comp_def map_replicate_const)

section \<open>Resuming over the network\<close>

lemma initSession_dids_kept:
  "did ` set (accounts st) \<subseteq> did ` set (accounts (state_of (initSession env account st)))"
proof (rule initSession_preserves
    [where P = "\<lambda>s. did ` set (accounts st) \<subseteq> did ` set (accounts s)"])
  fix r and s :: state
  assume h: "did ` set (accounts st) \<subseteq> did ` set (accounts s)"
  have "did ` set (accounts s) \<subseteq> did ` set (accounts (upsertAccount r s))"
    by (auto simp: upsertAccount_def setAccounts_def persistNextUpdate_def)
  with h show "did ` set (accounts st) \<subseteq> did ` set (accounts (upsertAccount r s))"
    by blast
qed (simp_all add: clearCurrentAccount_def emitSessionDropped_def persistNextUpdate_def
    setAgent_def)

lemma initSession_resume_outcome:
  assumes "\<not> canReusePrevSession env account"
  shows "resumeCalls (state_of (initSession env account st)) =
           resumeCalls st +
             (if result (agent_resumeSession env 0) = Inl TransientNetworkError then 2 else 1)"
    and "resumeFailsTerminally env \<Longrightarrow>
           agent (state_of (initSession env account st)) = PUBLIC_BSKY_AGENT"
proof -
  let ?a0 = "\<lparr> ag_service = service account, ag_session = None,
               ag_persistSession = Some account, ag_labelersHeader = [] \<rparr>"
  obtain a1 st1 where cm: "configureModeration env ?a0 account st = (a1, st1)"
    by (cases "configureModeration env ?a0 account st")
  obtain st2 r0 where c0: "clientResumeSession env a1 0 st1 = (st2, r0)"
    by (cases "clientResumeSession env a1 0 st1")
  obtain st3 r1 where c1: "clientResumeSession env a1 1 st2 = (st3, r1)"
    by (cases "clientResumeSession env a1 1 st2")
  note path = initSession_resume_path [OF assms cm c0 c1]
  have st1: "resumeCalls st1 = resumeCalls st"
    using configureModeration_state(8) [of env ?a0 account st] cm
    by (simp add: resumeCalls_def)
  have n2: "resumeCalls st2 = Suc (resumeCalls st)"
    using resumeCalls_step [of env a1 0 st1] c0 st1 by simp
  have n3: "resumeCalls st3 = Suc (Suc (resumeCalls st))"
    using resumeCalls_step [of env a1 1 st2] c1 n2 by simp
  have r0: "r0 = (case result (agent_resumeSession env 0) of
                    Inl e \<Rightarrow> Inl e | Inr s \<Rightarrow> Inr (a1\<lparr>ag_session := Some s\<rparr>))"
    using clientResumeSession_result [of env a1 0 st1] c0 by simp
  have r1: "r1 = (case result (agent_resumeSession env 1) of
                    Inl e \<Rightarrow> Inl e | Inr s \<Rightarrow> Inr (a1\<lparr>ag_session := Some s\<rparr>))"
    using clientResumeSession_result [of env a1 1 st2] c1 by simp
  have clr: "\<And>s. resumeCalls (clearCurrentAccount env s) = resumeCalls s"
    "\<And>s. agent (clearCurrentAccount env s) = PUBLIC_BSKY_AGENT"
    "\<And>s c. resumeCalls (setAgent c s) = resumeCalls s"
    by (simp_all add: clearCurrentAccount_def setAgent_def persistNextUpdate_def resumeCalls_def)
  show "resumeCalls (state_of (initSession env account st)) =
           resumeCalls st +
             (if result (agent_resumeSession env 0) = Inl TransientNetworkError then 2 else 1)"
  proof (cases "result (agent_resumeSession env 0)")
    case (Inr s)
    then show ?thesis using path r0 n2 clr by simp
  next
    case (Inl e)
    then show ?thesis
      using path r0 r1 n2 n3 clr
      by (cases "result (agent_resumeSession env 1)")
        (simp_all add: isNetworkError_def)
  qed
  show "agent (state_of (initSession env account st)) = PUBLIC_BSKY_AGENT"
    if "resumeFailsTerminally env"
    using that path r0 r1 clr
    by (auto simp: resumeFailsTerminally_def split: sum.splits if_splits)
qed

text \<open>
  C6. With the cached access credential absent, undecodable or expired, \<^verbatim>\<open>initSession\<close>
  resolves after one \<^verbatim>\<open>resumeSession\<close> call, or two when the first failed transiently;
  no account id leaves the roster; and when the resume fails terminally the active client
  is the public client, so that there is no current account.
\<close>

theorem initSession_resumes_then_signs_out:
  assumes "\<not> truthy (accessJwt account)
     \<or> jwtDecode env (the (accessJwt account)) = None
     \<or> (\<exists>c e. jwtDecode env (the (accessJwt account)) = Some c \<and> jwt_exp c = Some e
           \<and> Date_now env \<ge> e * 1000)"
  shows "\<not> rejected (initSession env account st)
     \<and> resumeCalls (state_of (initSession env account st)) =
         resumeCalls st +
           (if result (agent_resumeSession env 0) = Inl TransientNetworkError then 2 else 1)
     \<and> did ` set (accounts st) \<subseteq> did ` set (accounts (state_of (initSession env account st)))
     \<and> (resumeFailsTerminally env \<longrightarrow>
           agent (state_of (initSession env account st)) = PUBLIC_BSKY_AGENT
           \<and> currentAccount env (state_of (initSession env account st)) = Inr None)"
proof -
  have nr: "\<not> canReusePrevSession env account"
    using assms by (rule cannot_reuse)
  have "currentAccount env (state_of (initSession env account st)) = Inr None"
    if "resumeFailsTerminally env"
    using initSession_resume_outcome(2) [OF nr that, of st]
    by (simp add: currentAccount_def)
  then show ?thesis
    using initSession_returns [of env account st] initSession_resume_outcome [OF nr, of st]
      initSession_dids_kept [of st env account]
    by blast
qed

theorem initSession_resumes_then_signs_out_witness:
  "(\<exists>c e. jwtDecode env0 (the (accessJwt bob)) = Some c \<and> jwt_exp c = Some e
       \<and> Date_now env0 \<ge> e * 1000)
   \<and> resumeFailsTerminally env0
   \<and> resumeCalls (state_of (initSession env0 bob stateAlice)) = 2
   \<and> did bob \<in> did ` set (accounts (state_of (initSession env0 bob stateAlice)))
   \<and> agent (state_of (initSession env0 bob stateAlice)) = PUBLIC_BSKY_AGENT
   \<and> currentAccount env0 (state_of (initSession env0 bob stateAlice)) = Inr None"
proof -
  have expired: "\<exists>c e. jwtDecode env0 (the (accessJwt bob)) = Some c \<and> jwt_exp c = Some e
       \<and> Date_now env0 \<ge> e * 1000"
    by (simp add: env0_def bob_def tokenTable_def)
  have fails: "resumeFailsTerminally env0"
    by (simp add: resumeFailsTerminally_def env0_def failingAttempt_def isNetworkError_def)
  have first: "result (agent_resumeSession env0 0) = Inl TransientNetworkError"
    by (simp add: env0_def failingAttempt_def)
  have before: "resumeCalls stateAlice = 0" "did bob \<in> did ` set (accounts stateAlice)"
    by (simp_all add: resumeCalls_def stateAlice_def state0_def)
  show ?thesis
    using initSession_resumes_then_signs_out [of bob env0 stateAlice] expired fails first before
    by auto
qed

section \<open>Switching accounts and cold start\<close>

lemma selectAccount_outcome:
  "rejected (selectAccount env account st) =
     rejected (initSession env account (st\<lparr>isSwitchingAccounts := True\<rparr>))"
  "state_of (selectAccount env account st) =
     (state_of (initSession env account (st\<lparr>isSwitchingAccounts := True\<rparr>)))
       \<lparr>isSwitchingAccounts := False\<rparr>"
  by (simp_all add: selectAccount_def split: outcome.splits)

lemma resumeSession_outcome:
  "\<not> rejected (resumeSession env account st)"
  "state_of (resumeSession env (Some acc) st) =
     (state_of (initSession env acc st))\<lparr>isInitialLoad := False\<rparr>"
  by (simp_all add: resumeSession_def split: outcome.splits option.splits)

text \<open>
  C1, as the code has it. With the cached access credential absent, undecodable or expired
  and the resume failing terminally, \<^verbatim>\<open>initSession\<close> catches the failure itself and
  clears the current account. So \<^verbatim>\<open>selectAccount\<close> resolves as well: it leaves the
  public client active and \<^verbatim>\<open>isSwitchingAccounts\<close> reset; \<^verbatim>\<open>resumeSession\<close>
  resolves too, with \<^verbatim>\<open>isInitialLoad\<close> cleared.
\<close>

theorem selectAccount_resolves_on_resume_failure:
  assumes "\<not> truthy (accessJwt account)
     \<or> jwtDecode env (the (accessJwt account)) = None
     \<or> (\<exists>c e. jwtDecode env (the (accessJwt account)) = Some c \<and> jwt_exp c = Some e
           \<and> Date_now env \<ge> e * 1000)"
    and "resumeFailsTerminally env"
  shows "\<not> rejected (selectAccount env account st)
     \<and> agent (state_of (selectAccount env account st)) = PUBLIC_BSKY_AGENT
     \<and> isSwitchingAccounts (state_of (selectAccount env account st)) = False
     \<and> \<not> rejected (resumeSession env (Some account) st)
     \<and> agent (state_of (resumeSession env (Some account) st)) = PUBLIC_BSKY_AGENT
     \<and> isInitialLoad (state_of (resumeSession env (Some account) st)) = False"
proof -
  have nr: "\<not> canReusePrevSession env account"
    using assms(1) by (rule cannot_reuse)
  have pub: "\<And>s. agent (state_of (initSession env account s)) = PUBLIC_BSKY_AGENT"
    using initSession_resume_outcome(2) [OF nr assms(2)] by simp
  show ?thesis
    using pub initSession_returns [of env account]
    by (simp add: selectAccount_outcome resumeSession_outcome)
qed

text \<open>
  The claim fails at \<open>bob\<close>, whose token has expired, when both resume attempts are
  rejected: \<^verbatim>\<open>selectAccount\<close> does not reject.
\<close>

theorem selectAccount_rethrow_counterexample:
  "(\<exists>c e. jwtDecode env0 (the (accessJwt bob)) = Some c \<and> jwt_exp c = Some e
       \<and> Date_now env0 \<ge> e * 1000)
   \<and> result (agent_resumeSession env0 0) = Inl TransientNetworkError
   \<and> result (agent_resumeSession env0 1) = Inl TransientNetworkError
   \<and> \<not> rejected (selectAccount env0 bob stateAlice)
   \<and> agent (state_of (selectAccount env0 bob stateAlice)) = PUBLIC_BSKY_AGENT"
  by (simp add: env0_def bob_def alice_def tokenTable_def failingAttempt_def stateAlice_def state0_def
      aliceAgent_def selectAccount_def initSession_def canReusePrevSession_def truthy_def
      configureModeration_def endsWithTest_def clientResumeSession_def agentHandler_def
      installedHandler_def persistSession_def clearCurrentAccount_def persistNextUpdate_def
      setAgent_def isNetworkError_def resumeCalls_def Let_def)

theorem selectAccount_resolves_on_resume_failure_witness:
  "(\<exists>c e. jwtDecode env0 (the (accessJwt bob)) = Some c \<and> jwt_exp c = Some e
       \<and> Date_now env0 \<ge> e * 1000)
   \<and> resumeFailsTerminally env0
   \<and> \<not> rejected (selectAccount env0 bob stateAlice)
   \<and> agent (state_of (selectAccount env0 bob stateAlice)) = PUBLIC_BSKY_AGENT
   \<and> isSwitchingAccounts (state_of (selectAccount env0 bob stateAlice)) = False
   \<and> \<not> rejected (resumeSession env0 (Some bob) stateAlice)"
proof -
  have expired: "\<exists>c e. jwtDecode env0 (the (accessJwt bob)) = Some c \<and> jwt_exp c = Some e
       \<and> Date_now env0 \<ge> e * 1000"
    by (simp add: env0_def bob_def tokenTable_def)
  have fails: "resumeFailsTerminally env0"
    by (simp add: resumeFailsTerminally_def env0_def failingAttempt_def isNetworkError_def)
  show ?thesis
    using selectAccount_resolves_on_resume_failure [of bob env0 stateAlice] expired fails
    by blast
qed

section \<open>Reusing a cached credential\<close>

lemma can_reuse:
  assumes "accessJwt account = Some t" and "t \<noteq> []" and "jwtDecode env t = Some c"
    and "jwt_exp c = Some e" and "e \<noteq> 0" and "Date_now env < e * 1000"
  shows "canReusePrevSession env account"
  using assms by (simp add: canReusePrevSession_def truthy_def Let_def)

lemma cannot_reuse_without_exp:
  assumes "accessJwt account = Some t" and "jwtDecode env t = Some c"
    and "jwt_exp c = None \<or> jwt_exp c = Some 0"
  shows "\<not> canReusePrevSession env account"
  using assms by (auto simp: canReusePrevSession_def truthy_def Let_def)

lemma initSession_reuse_path:
  assumes "canReusePrevSession env account"
  shows "\<not> rejected (initSession env account st)
     \<and> calls (state_of (initSession env account st)) =
         calls st @ (if IS_TEST_USER env (handle account) then [ResolveHandleCall] else [])
     \<and> resumeCalls (state_of (initSession env account st)) = resumeCalls st
     \<and> accounts (state_of (initSession env account st)) =
         account # filter (\<lambda>a. did a \<noteq> did account) (accounts st)
     \<and> (\<exists>a. agent (state_of (initSession env account st)) = Client a
            \<and> ag_service a = service account
            \<and> ag_session a = Some (sessionAccountToAgentSession account)
            \<and> ag_persistSession a = Some account)"
proof -
  let ?a0 = "\<lparr> ag_service = service account, ag_session = None,
               ag_persistSession = Some account, ag_labelersHeader = [] \<rparr>"
  obtain a1 st1 where cm: "configureModeration env ?a0 account st = (a1, st1)"
    by (cases "configureModeration env ?a0 account st")
  have run: "initSession env account st =
      Returned (upsertAccount account
        (setAgent (Client (a1\<lparr>ag_session := Some (sessionAccountToAgentSession account)\<rparr>)) st1))"
    using assms cm by (simp add: initSession_def Let_def)
  have st1: "accounts st1 = accounts st"
    "calls st1 = calls st @ (if IS_TEST_USER env (handle account) then [ResolveHandleCall] else [])"
    using configureModeration_state(1,8) [of env ?a0 account st] cm by simp_all
  have a1: "ag_service a1 = service account" "ag_persistSession a1 = Some account"
    using configureModeration_agent(1,3) [of env ?a0 account st] cm by simp_all
  show ?thesis
    using run st1 a1
    by (simp add: upsertAccount_def setAccounts_def persistNextUpdate_def setAgent_def
        resumeCalls_def)
qed

text \<open>
  C4, as the code has it. Take an access credential that is present and decodes. If it
  carries an expiry other than 0 that the clock has not reached, \<^verbatim>\<open>initSession\<close>
  resolves without any \<^verbatim>\<open>resumeSession\<close> call: the only remote call it issues is the
  handle resolution of \<^verbatim>\<open>configureModeration\<close>, and that exactly for a test-user handle.
  The new client is built for the account's service, holds the cached credentials and the
  handler of the account, and is the active client; the account is upserted at the front
  of the roster. If the credential carries no expiry, or the expiry 0, it is not reused:
  \<^verbatim>\<open>initSession\<close> resolves after at least one \<^verbatim>\<open>resumeSession\<close> call.
\<close>

theorem initSession_reuses_cached_credential:
  assumes "accessJwt account = Some t" and "t \<noteq> []" and "jwtDecode env t = Some c"
  shows "(\<forall>e. jwt_exp c = Some e \<and> e \<noteq> 0 \<and> Date_now env < e * 1000 \<longrightarrow>
            \<not> rejected (initSession env account st)
            \<and> calls (state_of (initSession env account st)) =
                calls st @ (if IS_TEST_USER env (handle account) then [ResolveHandleCall] else [])
            \<and> resumeCalls (state_of (initSession env account st)) = resumeCalls st
            \<and> accounts (state_of (initSession env account st)) =
                account # filter (\<lambda>a. did a \<noteq> did account) (accounts st)
            \<and> (\<exists>a. agent (state_of (initSession env account st)) = Client a
                   \<and> ag_service a = service account
                   \<and> ag_session a = Some (sessionAccountToAgentSession account)
                   \<and> ag_persistSession a = Some account))
     \<and> (jwt_exp c = None \<or> jwt_exp c = Some 0 \<longrightarrow>
            \<not> rejected (initSession env account st)
            \<and> resumeCalls st < resumeCalls (state_of (initSession env account st)))"
proof (rule conjI)
  show "\<forall>e. jwt_exp c = Some e \<and> e \<noteq> 0 \<and> Date_now env < e * 1000 \<longrightarrow>
            \<not> rejected (initSession env account st)
            \<and> calls (state_of (initSession env account st)) =
                calls st @ (if IS_TEST_USER env (handle account) then [ResolveHandleCall] else [])
            \<and> resumeCalls (state_of (initSession env account st)) = resumeCalls st
            \<and> accounts (state_of (initSession env account st)) =
                account # filter (\<lambda>a. did a \<noteq> did account) (accounts st)
            \<and> (\<exists>a. agent (state_of (initSession env account st)) = Client a
                   \<and> ag_service a = service account
                   \<and> ag_session a = Some (sessionAccountToAgentSession account)
                   \<and> ag_persistSession a = Some account)"
  proof (rule allI, rule impI)
    fix e
    assume "jwt_exp c = Some e \<and> e \<noteq> 0 \<and> Date_now env < e * 1000"
    then have "canReusePrevSession env account"
      using can_reuse [OF assms, of e] by simp
    then show "\<not> rejected (initSession env account st)
            \<and> calls (state_of (initSession env account st)) =
                calls st @ (if IS_TEST_USER env (handle account) then [ResolveHandleCall] else [])
            \<and> resumeCalls (state_of (initSession env account st)) = resumeCalls st
            \<and> accounts (state_of (initSession env account st)) =
                account # filter (\<lambda>a. did a \<noteq> did account) (accounts st)
            \<and> (\<exists>a. agent (state_of (initSession env account st)) = Client a
                   \<and> ag_service a = service account
                   \<and> ag_session a = Some (sessionAccountToAgentSession account)
                   \<and> ag_persistSession a = Some account)"
      by (rule initSession_reuse_path)
  qed
next
  show "jwt_exp c = None \<or> jwt_exp c = Some 0 \<longrightarrow>
            \<not> rejected (initSession env account st)
            \<and> resumeCalls st < resumeCalls (state_of (initSession env account st))"
  proof (rule impI)
    assume "jwt_exp c = None \<or> jwt_exp c = Some 0"
    then have nr: "\<not> canReusePrevSession env account"
      using cannot_reuse_without_exp [OF assms(1,3)] by simp
    show "\<not> rejected (initSession env account st)
            \<and> resumeCalls st < resumeCalls (state_of (initSession env account st))"
      using initSession_returns [of env account st] initSession_resume_outcome(1) [OF nr, of st]
      by simp
  qed
qed

text \<open>
  The claim fails at \<open>alice\<close>: her token is valid for another 1000 seconds, yet her handle
  is a test-user handle and \<^verbatim>\<open>initSession\<close> issues a remote call on the new client. It
  also fails at \<open>dave\<close>, whose token decodes and carries no expiry: the session is resumed
  over the network.
\<close>

theorem initSession_zero_calls_counterexample:
  "accessJwt alice = Some ''J1''
   \<and> jwtDecode env0 ''J1'' = Some \<lparr> jwt_exp = Some 2000, jwt_scope = None \<rparr>
   \<and> Date_now env0 < 2000 * 1000
   \<and> calls (state_of (initSession env0 alice state0)) = [ResolveHandleCall]
   \<and> accessJwt dave = Some ''Jnoexp''
   \<and> jwtDecode env0 ''Jnoexp'' = Some \<lparr> jwt_exp = None, jwt_scope = None \<rparr>
   \<and> ResumeSessionCall \<in> set (calls (state_of (initSession env0 dave state0)))"
  by (simp add: env0_def alice_def dave_def tokenTable_def failingAttempt_def state0_def
      initSession_def canReusePrevSession_def truthy_def
      configureModeration_def endsWithTest_def clientResumeSession_def agentHandler_def
      installedHandler_def persistSession_def clearCurrentAccount_def persistNextUpdate_def
      setAgent_def isNetworkError_def upsertAccount_def setAccounts_def Let_def)

theorem initSession_reuses_cached_credential_witness:
  "accessJwt alice = Some ''J1'' \<and> ''J1'' \<noteq> []
   \<and> jwtDecode env0 ''J1'' = Some \<lparr> jwt_exp = Some 2000, jwt_scope = None \<rparr>
   \<and> (2000 :: int) \<noteq> 0 \<and> Date_now env0 < 2000 * 1000
   \<and> calls (state_of (initSession env0 alice stateAlice)) = [ResolveHandleCall]
   \<and> resumeCalls (state_of (initSession env0 alice stateAlice)) = 0
   \<and> accounts (state_of (initSession env0 alice stateAlice)) = [alice, bob]
   \<and> currentAccount env0 (state_of (initSession env0 alice stateAlice)) = Inr (Some alice)
   \<and> accessJwt dave = Some ''Jnoexp'' \<and> ''Jnoexp'' \<noteq> []
   \<and> jwtDecode env0 ''Jnoexp'' = Some \<lparr> jwt_exp = None, jwt_scope = None \<rparr>
   \<and> resumeCalls stateAlice < resumeCalls (state_of (initSession env0 dave stateAlice))"
proof -
  have h: "accessJwt alice = Some ''J1''" "''J1'' \<noteq> []"
    "jwtDecode env0 ''J1'' = Some \<lparr> jwt_exp = Some 2000, jwt_scope = None \<rparr>"
    by (simp_all add: alice_def env0_def tokenTable_def)
  have fresh: "jwt_exp \<lparr> jwt_exp = Some 2000, jwt_scope = None \<rparr> = Some 2000"
    "(2000 :: int) \<noteq> 0" "Date_now env0 < 2000 * 1000"
    by (simp_all add: env0_def)
  have g: "accessJwt dave = Some ''Jnoexp''" "''Jnoexp'' \<noteq> []"
    "jwtDecode env0 ''Jnoexp'' = Some \<lparr> jwt_exp = None, jwt_scope = None \<rparr>"
    by (simp_all add: dave_def env0_def tokenTable_def)
  have before: "resumeCalls stateAlice = 0" "calls stateAlice = []"
    "filter (\<lambda>a. did a \<noteq> did alice) (accounts stateAlice) = [bob]"
    "IS_TEST_USER env0 (handle alice)"
    by (simp_all add: resumeCalls_def stateAlice_def state0_def alice_def bob_def env0_def
        endsWithTest_def)
  have cur: "\<And>a. ag_service a = service alice \<Longrightarrow>
      ag_session a = Some (sessionAccountToAgentSession alice) \<Longrightarrow>
      agentToSessionAccount env0 a = Inr (Some alice)"
    by (simp add: agentToSessionAccount_def sessionAccountToAgentSession_def alice_def
        isSessionDeactivated_def truthy_def or_empty_def env0_def tokenTable_def hrefTable_def)
  show ?thesis
    using initSession_reuses_cached_credential [OF h, of stateAlice]
      initSession_reuses_cached_credential [OF g, of stateAlice] h g fresh before cur
    by (auto simp: currentAccount_def)
qed

section \<open>The persist-session handler on its events\<close>

text \<open>
  C2, as the code has it. On \<^verbatim>\<open>network-error\<close> the handler does nothing but call the
  network-error callback, and without one it leaves the state as it is. Every install site
  passes \<^verbatim>\<open>clearCurrentAccount\<close> as that callback: the roster, the calls issued and the
  session-dropped count stay, the dirty flag is set, and the active client becomes the
  public client, so that no current account remains.
\<close>

theorem network_error_clears_current_account:
  "persistSession env account cb None EvNetworkError session st = Returned st
   \<and> installedHandler env account EvNetworkError session st = Returned (clearCurrentAccount env st)
   \<and> accounts (state_of (installedHandler env account EvNetworkError session st)) = accounts st
   \<and> calls (state_of (installedHandler env account EvNetworkError session st)) = calls st
   \<and> sessionDropped (state_of (installedHandler env account EvNetworkError session st))
       = sessionDropped st
   \<and> isDirty (state_of (installedHandler env account EvNetworkError session st)) = True
   \<and> agent (state_of (installedHandler env account EvNetworkError session st)) = PUBLIC_BSKY_AGENT
   \<and> currentAccount env (state_of (installedHandler env account EvNetworkError session st))
       = Inr None"
  by (simp add: installedHandler_def persistSession_def clearCurrentAccount_def
      persistNextUpdate_def setAgent_def currentAccount_def)

text \<open>
  The claim fails in the state where \<open>alice\<close> is signed in: after the event the active
  client is no longer hers.
\<close>

theorem network_error_keeps_session_counterexample:
  "currentAccount env0 stateAlice = Inr (Some alice)
   \<and> agent stateAlice = Client aliceAgent
   \<and> agent (state_of (installedHandler env0 alice EvNetworkError None stateAlice))
       = PUBLIC_BSKY_AGENT
   \<and> currentAccount env0 (state_of (installedHandler env0 alice EvNetworkError None stateAlice))
       = Inr None"
  by (simp add: installedHandler_def persistSession_def clearCurrentAccount_def
      persistNextUpdate_def setAgent_def currentAccount_def stateAlice_def state0_def
      aliceAgent_def agentToSessionAccount_def sessionAccountToAgentSession_def alice_def
      isSessionDeactivated_def truthy_def or_empty_def env0_def tokenTable_def hrefTable_def)

section \<open>Decoding failures\<close>

text \<open>
  C3. \<^verbatim>\<open>isSessionDeactivated\<close> answers \<^verbatim>\<open>false\<close> for an undefined and for an empty
  token, and \<^verbatim>\<open>true\<close> for a token whose scope is the sentinel; on a token that does not
  decode, the decoder's exception leaves the function.
\<close>

theorem isSessionDeactivated_throws_on_undecodable:
  "isSessionDeactivated env0 None = Inr False
   \<and> isSessionDeactivated env0 (Some []) = Inr False
   \<and> isSessionDeactivated env0 (Some ''Jdeact'') = Inr True
   \<and> isSessionDeactivated env0 (Some ''J1'') = Inr False
   \<and> jwtDecode env0 ''not-a-jwt'' = None
   \<and> isSessionDeactivated env0 (Some ''not-a-jwt'') = Inl CredentialDecodeError"
  by (simp add: isSessionDeactivated_def truthy_def env0_def tokenTable_def hrefTable_def)

lemma isSessionDeactivated_cases:
  "isSessionDeactivated env tok =
     (case tok of
        None \<Rightarrow> Inr False
      | Some t \<Rightarrow>
          if t = [] then Inr False
          else (case jwtDecode env t of
                  None \<Rightarrow> Inl CredentialDecodeError
                | Some c \<Rightarrow> Inr (jwt_scope c = Some (ClaimString ''com.atproto.deactivated''))))"
  by (simp add: isSessionDeactivated_def truthy_def split: option.splits)

section \<open>What the handler upserts\<close>

text \<open>
  C10, as the code has it. On an event other than \<^verbatim>\<open>network-error\<close> whose token
  decodes, the handler upserts a record that keeps the account's \<^verbatim>\<open>service\<close>; its
  \<^verbatim>\<open>did\<close>, \<^verbatim>\<open>handle\<close>, \<^verbatim>\<open>email\<close> and \<^verbatim>\<open>emailConfirmed\<close> are the session's
  values where the session gives a truthy one and the account's values otherwise. So the
  \<^verbatim>\<open>did\<close> is never erased, and it stays the account's unless the session carries another,
  non-empty \<^verbatim>\<open>did\<close>.
\<close>

theorem persistSession_keeps_identity_fields:
  assumes "event \<noteq> EvNetworkError"
    and "refreshedAccount env account session = Inr r"
  shows "\<not> rejected (installedHandler env account event session st)
     \<and> filter (\<lambda>a. did a = did r)
         (accounts (state_of (installedHandler env account event session st))) = [r]
     \<and> service r = service account
     \<and> did r = (case session of
                  None \<Rightarrow> did account
                | Some s \<Rightarrow> if sess_did s = [] then did account else sess_did s)
     \<and> handle r = (case session of
                  None \<Rightarrow> handle account
                | Some s \<Rightarrow> if sess_handle s = [] then handle account else sess_handle s)
     \<and> email r = (case session of
                  None \<Rightarrow> email account
                | Some s \<Rightarrow> if truthy (sess_email s) then sess_email s else email account)
     \<and> emailConfirmed r = (case session of
                  None \<Rightarrow> emailConfirmed account
                | Some s \<Rightarrow> if sess_emailConfirmed s = Some True then Some True
                            else emailConfirmed account)
     \<and> (did account \<noteq> [] \<longrightarrow> did r \<noteq> [])"
proof -
  have fields: "service r = service account"
    "did r = js_or (map_option sess_did session) (did account)"
    "handle r = js_or (map_option sess_handle session) (handle account)"
    "email r = js_or_opt (Option.bind session sess_email) (email account)"
    "emailConfirmed r =
       js_or_bool (Option.bind session sess_emailConfirmed) (emailConfirmed account)"
    using assms(2) by (auto simp: refreshedAccount_def split: sum.splits)
  have run: "installedHandler env account event session st =
      Returned (persistSessionCallback env (event = EvExpired \<or> event = EvCreateFailed) r
        (if event = EvExpired \<or> event = EvCreateFailed then emitSessionDropped st else st))"
    using assms by (simp add: installedHandler_def persistSession_def Let_def)
  have roster: "\<And>b s. filter (\<lambda>a. did a = did r)
        (accounts (persistSessionCallback env b r s)) = [r]"
    by (simp add: persistSessionCallback_def upsertAccount_def setAccounts_def
        persistNextUpdate_def clearCurrentAccount_def setAgent_def Let_def
        filter_empty_conv)
  show ?thesis
    using fields run roster
    by (cases session) (simp_all add: js_or_def js_or_opt_def js_or_bool_def truthy_def)
qed

text \<open>
  The claim fails at a refresh whose session carries another \<^verbatim>\<open>did\<close>: the record the
  handler upserts for \<open>alice\<close> is keyed by the session's \<^verbatim>\<open>did\<close>, a new roster entry
  beside hers.
\<close>

theorem persistSession_did_change_counterexample:
  "did alice = ''did:plc:A''
   \<and> map did (accounts stateAlice) = [''did:plc:A'', ''did:plc:B'']
   \<and> map did (accounts (state_of (installedHandler env0 alice EvUpdate
        (Some (sessionOf ''did:plc:Z'' ''alice.ex.test'' ''J1'')) stateAlice)))
       = [''did:plc:Z'', ''did:plc:A'', ''did:plc:B'']"
  by (simp add: installedHandler_def persistSession_def persistSessionCallback_def
      refreshedAccount_def isSessionDeactivated_def truthy_def env0_def tokenTable_def hrefTable_def
      sessionOf_def js_or_def js_or_opt_def js_or_bool_def upsertAccount_def setAccounts_def
      persistNextUpdate_def stateAlice_def state0_def alice_def bob_def Let_def)

theorem persistSession_keeps_identity_fields_witness:
  "EvExpired \<noteq> EvNetworkError
   \<and> (\<exists>r. refreshedAccount env0 alice None = Inr r
        \<and> service r = service alice \<and> did r = did alice \<and> handle r = handle alice
        \<and> email r = email alice \<and> emailConfirmed r = emailConfirmed alice
        \<and> filter (\<lambda>a. did a = did r)
            (accounts (state_of (installedHandler env0 alice EvExpired None stateAlice))) = [r])
   \<and> did alice \<noteq> []"
proof -
  obtain r where r: "refreshedAccount env0 alice None = Inr r"
    by (simp add: refreshedAccount_def isSessionDeactivated_def truthy_def)
  have ne: "EvExpired \<noteq> EvNetworkError" "did alice \<noteq> []"
    by (simp_all add: alice_def)
  show ?thesis
    using persistSession_keeps_identity_fields [OF ne(1) r, of stateAlice] r ne
    by auto
qed

section \<open>Creating an account\<close>

lemma createAccount_success:
  assumes "agent_createAccount env props = Inr (Some sess)"
    and "isSessionDeactivated env (Some (sess_accessJwt sess)) = Inr d"
  shows "\<exists>a1 s.
      configureModeration env
        \<lparr> ag_service = p_service props, ag_session = Some sess,
          ag_persistSession = None, ag_labelersHeader = [] \<rparr>
        \<lparr> service = URL_toString env (p_service props), did = sess_did sess, handle = sess_handle sess,
          email = sess_email sess, emailConfirmed = sess_emailConfirmed sess,
          deactivated = Some d, refreshJwt = Some (sess_refreshJwt sess),
          accessJwt = Some (sess_accessJwt sess) \<rparr>
        (if d then st\<lparr>calls := calls st @ [CreateAccountCall]\<rparr>
         else upsertProfile env (st\<lparr>calls := calls st @ [CreateAccountCall]\<rparr>)) = (a1, s)
      \<and> createAccount env props st =
          Returned (upsertAccount
            \<lparr> service = URL_toString env (p_service props), did = sess_did sess, handle = sess_handle sess,
              email = sess_email sess, emailConfirmed = sess_emailConfirmed sess,
              deactivated = Some d, refreshJwt = Some (sess_refreshJwt sess),
              accessJwt = Some (sess_accessJwt sess) \<rparr>
            (setAgent (Client (a1\<lparr>ag_persistSession := Some
              \<lparr> service = URL_toString env (p_service props), did = sess_did sess, handle = sess_handle sess,
                email = sess_email sess, emailConfirmed = sess_emailConfirmed sess,
                deactivated = Some d, refreshJwt = Some (sess_refreshJwt sess),
                accessJwt = Some (sess_accessJwt sess) \<rparr>\<rparr>)) s))"
  using assms
  by (cases d)
    (auto simp: createAccount_def agentToSessionAccount_def Let_def split: prod.splits)

lemma createAccount_resolved:
  assumes "createAccount env props st = Returned st'"
  shows "\<exists>sess d. agent_createAccount env props = Inr (Some sess)
      \<and> isSessionDeactivated env (Some (sess_accessJwt sess)) = Inr d"
  using assms
  by (auto simp: createAccount_def Let_def split: sum.splits option.splits)


lemma configureModeration_fst:
  "fst (configureModeration env a account st) = fst (configureModeration env a account st2)"
  by (simp add: configureModeration_def Let_def split: option.splits)

lemma createAccount_fields:
  assumes "agent_createAccount env props = Inr (Some sess)"
    and "isSessionDeactivated env (Some (sess_accessJwt sess)) = Inr d"
  shows "\<not> rejected (createAccount env props st)"
    and "calls (state_of (createAccount env props st)) =
           calls st @ [CreateAccountCall] @ (if d then [] else [UpsertProfileCall])
             @ (if IS_TEST_USER env (sess_handle sess) then [ResolveHandleCall] else [])"
    and "unhandled (state_of (createAccount env props st)) =
           unhandled st @
             (if d then [] else (case agent_upsertProfile env of None \<Rightarrow> [] | Some e \<Rightarrow> [e]))"
    and "accounts (state_of (createAccount env props st)) =
           \<lparr> service = URL_toString env (p_service props), did = sess_did sess, handle = sess_handle sess,
             email = sess_email sess, emailConfirmed = sess_emailConfirmed sess,
             deactivated = Some d, refreshJwt = Some (sess_refreshJwt sess),
             accessJwt = Some (sess_accessJwt sess) \<rparr>
           # filter (\<lambda>a. did a \<noteq> sess_did sess) (accounts st)"
    and "agent (state_of (createAccount env props st)) =
           Client ((fst (configureModeration env
             \<lparr> ag_service = p_service props, ag_session = Some sess,
               ag_persistSession = None, ag_labelersHeader = [] \<rparr>
             \<lparr> service = URL_toString env (p_service props), did = sess_did sess, handle = sess_handle sess,
               email = sess_email sess, emailConfirmed = sess_emailConfirmed sess,
               deactivated = Some d, refreshJwt = Some (sess_refreshJwt sess),
               accessJwt = Some (sess_accessJwt sess) \<rparr> st))
             \<lparr>ag_persistSession := Some
               \<lparr> service = URL_toString env (p_service props), did = sess_did sess, handle = sess_handle sess,
                 email = sess_email sess, emailConfirmed = sess_emailConfirmed sess,
                 deactivated = Some d, refreshJwt = Some (sess_refreshJwt sess),
                 accessJwt = Some (sess_accessJwt sess) \<rparr>\<rparr>)"
proof -
  let ?acc = "\<lparr> service = URL_toString env (p_service props), did = sess_did sess, handle = sess_handle sess,
               email = sess_email sess, emailConfirmed = sess_emailConfirmed sess,
               deactivated = Some d, refreshJwt = Some (sess_refreshJwt sess),
               accessJwt = Some (sess_accessJwt sess) \<rparr>"
  let ?a = "\<lparr> ag_service = p_service props, ag_session = Some sess,
             ag_persistSession = None, ag_labelersHeader = [] \<rparr>"
  let ?s = "if d then st\<lparr>calls := calls st @ [CreateAccountCall]\<rparr>
            else upsertProfile env (st\<lparr>calls := calls st @ [CreateAccountCall]\<rparr>)"
  obtain a1 s where cm: "configureModeration env ?a ?acc ?s = (a1, s)"
    and run: "createAccount env props st =
      Returned (upsertAccount ?acc (setAgent (Client (a1\<lparr>ag_persistSession := Some ?acc\<rparr>)) s))"
    using createAccount_success [OF assms, of st] by blast
  have s: "accounts s = accounts ?s" "unhandled s = unhandled ?s"
    "calls s = calls ?s @ (if IS_TEST_USER env (sess_handle sess) then [ResolveHandleCall] else [])"
    using configureModeration_state(1,7,8) [of env ?a ?acc ?s] cm by simp_all
  have a1: "a1 = fst (configureModeration env ?a ?acc st)"
    using configureModeration_fst [of env ?a ?acc ?s st] cm by simp
  show "\<not> rejected (createAccount env props st)" using run by simp
  show "calls (state_of (createAccount env props st)) =
           calls st @ [CreateAccountCall] @ (if d then [] else [UpsertProfileCall])
             @ (if IS_TEST_USER env (sess_handle sess) then [ResolveHandleCall] else [])"
    using run s
    by (simp add: upsertAccount_def setAccounts_def persistNextUpdate_def setAgent_def
        upsertProfile_def)
  show "unhandled (state_of (createAccount env props st)) =
           unhandled st @
             (if d then [] else (case agent_upsertProfile env of None \<Rightarrow> [] | Some e \<Rightarrow> [e]))"
    using run s
    by (simp add: upsertAccount_def setAccounts_def persistNextUpdate_def setAgent_def
        upsertProfile_def)
  show "accounts (state_of (createAccount env props st)) =
           ?acc # filter (\<lambda>a. did a \<noteq> sess_did sess) (accounts st)"
    using run s
    by (simp add: upsertAccount_def setAccounts_def persistNextUpdate_def setAgent_def
        upsertProfile_def)
  show "agent (state_of (createAccount env props st)) =
           Client ((fst (configureModeration env ?a ?acc st))\<lparr>ag_persistSession := Some ?acc\<rparr>)"
    using run a1
    by (simp add: upsertAccount_def setAccounts_def persistNextUpdate_def setAgent_def)
qed

lemma ignores_upsertProfile_answer:
  "agent_createAccount (env\<lparr>agent_upsertProfile := r\<rparr>) = agent_createAccount env"
  "isSessionDeactivated (env\<lparr>agent_upsertProfile := r\<rparr>) = isSessionDeactivated env"
  "configureModeration (env\<lparr>agent_upsertProfile := r\<rparr>) = configureModeration env"
  "IS_TEST_USER (env\<lparr>agent_upsertProfile := r\<rparr>) = IS_TEST_USER env"
  by (simp_all add: isSessionDeactivated_def configureModeration_def Let_def fun_eq_iff
      split: option.splits)

text \<open>
  C9. A \<^verbatim>\<open>createAccount\<close> that resolves has issued the profile call exactly when the new
  access token does not carry the deactivation scope, right after the account-creation
  call. The call is not awaited: whatever its answer, \<^verbatim>\<open>createAccount\<close> resolves with
  the same client, roster and calls; a rejection shows only as an unhandled one.
\<close>

theorem createAccount_profile_call_only_if_active:
  assumes "createAccount env props st = Returned st'"
  shows "\<exists>sess d. agent_createAccount env props = Inr (Some sess)
      \<and> isSessionDeactivated env (Some (sess_accessJwt sess)) = Inr d
      \<and> calls st' =
          calls st @ [CreateAccountCall] @ (if d then [] else [UpsertProfileCall])
            @ (if IS_TEST_USER env (sess_handle sess) then [ResolveHandleCall] else [])
      \<and> unhandled st' =
          unhandled st @
            (if d then [] else (case agent_upsertProfile env of None \<Rightarrow> [] | Some e \<Rightarrow> [e]))
      \<and> (\<forall>r. \<not> rejected (createAccount (env\<lparr>agent_upsertProfile := r\<rparr>) props st)
            \<and> agent (state_of (createAccount (env\<lparr>agent_upsertProfile := r\<rparr>) props st))
                = agent st'
            \<and> accounts (state_of (createAccount (env\<lparr>agent_upsertProfile := r\<rparr>) props st))
                = accounts st'
            \<and> calls (state_of (createAccount (env\<lparr>agent_upsertProfile := r\<rparr>) props st))
                = calls st')"
proof -
  obtain sess d where ok: "agent_createAccount env props = Inr (Some sess)"
    and de: "isSessionDeactivated env (Some (sess_accessJwt sess)) = Inr d"
    using createAccount_resolved [OF assms] by blast
  note here = createAccount_fields [OF ok de, of st]
  have "\<not> rejected (createAccount (env\<lparr>agent_upsertProfile := r\<rparr>) props st)
      \<and> agent (state_of (createAccount (env\<lparr>agent_upsertProfile := r\<rparr>) props st)) = agent st'
      \<and> accounts (state_of (createAccount (env\<lparr>agent_upsertProfile := r\<rparr>) props st)) = accounts st'
      \<and> calls (state_of (createAccount (env\<lparr>agent_upsertProfile := r\<rparr>) props st)) = calls st'"
    for r
  proof -
    let ?env = "env\<lparr>agent_upsertProfile := r\<rparr>"
    have ok': "agent_createAccount ?env props = Inr (Some sess)"
      and de': "isSessionDeactivated ?env (Some (sess_accessJwt sess)) = Inr d"
      using ok de by (simp_all add: ignores_upsertProfile_answer)
    show ?thesis
      using createAccount_fields(1,2,4,5) [OF ok' de', of st] here(2,4,5) assms
      by (simp add: ignores_upsertProfile_answer)
  qed
  then show ?thesis
    using ok de here(2,3) assms by auto
qed


theorem createAccount_profile_call_only_if_active_witness:
  "(\<exists>st'. createAccount env0 carolProps state0 = Returned st'
       \<and> isSessionDeactivated env0 (Some ''Jdeact'') = Inr True
       \<and> calls st' = [CreateAccountCall] \<and> unhandled st' = [])
   \<and> (\<exists>st'. createAccount (env0\<lparr>agent_createAccount :=
                  (\<lambda>p. Inr (Some (sessionOf ''did:plc:C'' (p_handle p) ''J1'')))\<rparr>)
                carolProps state0 = Returned st'
       \<and> isSessionDeactivated env0 (Some ''J1'') = Inr False
       \<and> calls st' = [CreateAccountCall, UpsertProfileCall] \<and> unhandled st' = [AuthError])"
proof -
  let ?env1 = "env0\<lparr>agent_createAccount :=
                  (\<lambda>p. Inr (Some (sessionOf ''did:plc:C'' (p_handle p) ''J1'')))\<rparr>"
  have tok: "isSessionDeactivated env0 (Some ''Jdeact'') = Inr True"
    "isSessionDeactivated env0 (Some ''J1'') = Inr False"
    "isSessionDeactivated ?env1 (Some ''J1'') = Inr False"
    by (simp_all add: isSessionDeactivated_def truthy_def env0_def tokenTable_def hrefTable_def)
  have ans: "agent_createAccount env0 carolProps
               = Inr (Some (sessionOf ''did:plc:C'' ''carol.bsky.social'' ''Jdeact''))"
    "agent_createAccount ?env1 carolProps
               = Inr (Some (sessionOf ''did:plc:C'' ''carol.bsky.social'' ''J1''))"
    "\<not> IS_TEST_USER env0 ''carol.bsky.social''" "\<not> IS_TEST_USER ?env1 ''carol.bsky.social''"
    "agent_upsertProfile env0 = Some AuthError" "agent_upsertProfile ?env1 = Some AuthError"
    "calls state0 = []" "unhandled state0 = []"
    "sess_accessJwt (sessionOf ''did:plc:C'' ''carol.bsky.social'' ''Jdeact'') = ''Jdeact''"
    "sess_accessJwt (sessionOf ''did:plc:C'' ''carol.bsky.social'' ''J1'') = ''J1''"
    "sess_handle (sessionOf ''did:plc:C'' ''carol.bsky.social'' ''Jdeact'') = ''carol.bsky.social''"
    "sess_handle (sessionOf ''did:plc:C'' ''carol.bsky.social'' ''J1'') = ''carol.bsky.social''"
    by (simp_all add: env0_def carolProps_def sessionOf_def endsWithTest_def state0_def)
  obtain s0 where run0: "createAccount env0 carolProps state0 = Returned s0"
    using createAccount_fields(1) [OF ans(1), of True state0] tok ans
    by (cases "createAccount env0 carolProps state0") simp_all
  obtain s1 where run1: "createAccount ?env1 carolProps state0 = Returned s1"
    using createAccount_fields(1) [OF ans(2), of False state0] tok ans
    by (cases "createAccount ?env1 carolProps state0") simp_all
  show ?thesis
    using createAccount_profile_call_only_if_active [OF run0]
      createAccount_profile_call_only_if_active [OF run1] run0 run1 tok ans
    by auto
qed

section \<open>Reconciliation with the persisted snapshot\<close>

lemma currentAccount_did:
  assumes "currentAccount env st = Inr (Some c)"
  shows "\<exists>a s. agent st = Client a \<and> ag_session a = Some s \<and> did c = sess_did s"
  using assms
  by (auto simp: currentAccount_def agentToSessionAccount_def
      split: active_client.splits option.splits sum.splits)

text \<open>
  C5, as the code has it. The callback first replaces the roster by the snapshot's. Then:
  a persisted current account that carries a refresh credential and whose id differs from
  the in-memory one (or there is none in memory) is handed to \<^verbatim>\<open>initSession\<close>; one with
  a refresh credential and the same id has its credentials spliced into the active client,
  with no call issued; an absent persisted current account, while there is one in memory,
  clears the current account and no roster entry is touched beyond the snapshot; and a
  persisted current account without a refresh credential changes nothing but the roster,
  whatever its id.
\<close>

theorem onUpdate_precedence:
  assumes "currentAccount env st = Inr cur"
  shows
    "(\<forall>pc. ps_currentAccount ps = Some pc \<and> truthy (refreshJwt pc)
          \<and> map_option did cur \<noteq> Some (did pc) \<longrightarrow>
        onUpdate env ps st = initSession env pc (st\<lparr>accounts := ps_accounts ps\<rparr>))
     \<and> (\<forall>pc. ps_currentAccount ps = Some pc \<and> truthy (refreshJwt pc)
          \<and> map_option did cur = Some (did pc) \<longrightarrow>
        (\<exists>a. agent st = Client a
           \<and> onUpdate env ps st =
               Returned (st\<lparr>accounts := ps_accounts ps,
                 agent := Client (a\<lparr>ag_session := Some (sessionAccountToAgentSession pc)\<rparr>)\<rparr>)))
     \<and> (ps_currentAccount ps = None \<and> cur \<noteq> None \<longrightarrow>
        onUpdate env ps st = Returned (clearCurrentAccount env (st\<lparr>accounts := ps_accounts ps\<rparr>)))
     \<and> (\<forall>pc. ps_currentAccount ps = Some pc \<and> \<not> truthy (refreshJwt pc) \<longrightarrow>
        onUpdate env ps st = Returned (st\<lparr>accounts := ps_accounts ps\<rparr>))
     \<and> (ps_currentAccount ps = None \<and> cur = None \<longrightarrow>
        onUpdate env ps st = Returned (st\<lparr>accounts := ps_accounts ps\<rparr>))"
proof -
  have splice: "\<exists>a. agent st = Client a
      \<and> onUpdate env ps st =
          Returned (st\<lparr>accounts := ps_accounts ps,
            agent := Client (a\<lparr>ag_session := Some (sessionAccountToAgentSession pc)\<rparr>)\<rparr>)"
    if pc: "ps_currentAccount ps = Some pc" "truthy (refreshJwt pc)"
      and same: "map_option did cur = Some (did pc)" for pc
  proof -
    obtain c where c: "cur = Some c" using same by (cases cur) simp_all
    obtain a where a: "agent st = Client a"
      using currentAccount_did assms c by blast
    show ?thesis
      using pc same a assms c
      by (simp add: onUpdate_def setAccounts_def setAgent_def clone_def Let_def)
  qed
  have switch: "onUpdate env ps st = initSession env pc (st\<lparr>accounts := ps_accounts ps\<rparr>)"
    if "ps_currentAccount ps = Some pc \<and> truthy (refreshJwt pc)
          \<and> map_option did cur \<noteq> Some (did pc)" for pc
    using that assms
    by (cases "Some (did pc) = map_option did cur")
      (simp_all add: onUpdate_def setAccounts_def Let_def)
  have signout: "onUpdate env ps st =
      Returned (clearCurrentAccount env (st\<lparr>accounts := ps_accounts ps\<rparr>))"
    if "ps_currentAccount ps = None \<and> cur \<noteq> None"
    using that assms by (simp add: onUpdate_def setAccounts_def Let_def)
  have gate: "onUpdate env ps st = Returned (st\<lparr>accounts := ps_accounts ps\<rparr>)"
    if "ps_currentAccount ps = Some pc \<and> \<not> truthy (refreshJwt pc)" for pc
    using that assms by (simp add: onUpdate_def setAccounts_def Let_def)
  have idle: "onUpdate env ps st = Returned (st\<lparr>accounts := ps_accounts ps\<rparr>)"
    if "ps_currentAccount ps = None \<and> cur = None"
    using that assms by (simp add: onUpdate_def setAccounts_def Let_def)
  show ?thesis
    using switch splice signout gate idle by blast
qed

text \<open>
  The claim fails when the snapshot names \<open>bob\<close> as current account without a refresh
  credential while \<open>alice\<close> is signed in: the ids differ, and \<^verbatim>\<open>initSession\<close> is not
  invoked; no call is issued and her client stays active.
\<close>

theorem onUpdate_switch_counterexample:
  "currentAccount env0 stateAlice = Inr (Some alice)
   \<and> did bobSignedOut \<noteq> did alice
   \<and> onUpdate env0 \<lparr> ps_accounts = [alice, bobSignedOut], ps_currentAccount = Some bobSignedOut \<rparr>
        stateAlice
       = Returned (stateAlice\<lparr>accounts := [alice, bobSignedOut]\<rparr>)
   \<and> agent (stateAlice\<lparr>accounts := [alice, bobSignedOut]\<rparr>) = Client aliceAgent
   \<and> calls (stateAlice\<lparr>accounts := [alice, bobSignedOut]\<rparr>) = []
   \<and> ResumeSessionCall \<in> set (calls (state_of
         (initSession env0 bobSignedOut (stateAlice\<lparr>accounts := [alice, bobSignedOut]\<rparr>))))"
  by (simp add: onUpdate_def currentAccount_def agentToSessionAccount_def
      sessionAccountToAgentSession_def isSessionDeactivated_def truthy_def or_empty_def
      env0_def tokenTable_def hrefTable_def stateAlice_def state0_def aliceAgent_def alice_def bob_def
      bobSignedOut_def setAccounts_def failingAttempt_def
      initSession_def canReusePrevSession_def
      configureModeration_def endsWithTest_def clientResumeSession_def agentHandler_def
      installedHandler_def persistSession_def clearCurrentAccount_def persistNextUpdate_def
      setAgent_def isNetworkError_def Let_def)


theorem onUpdate_precedence_witness:
  "currentAccount env0 stateAlice = Inr (Some alice)
   \<and> truthy (refreshJwt bob) \<and> did alice \<noteq> did bob
   \<and> onUpdate env0 \<lparr> ps_accounts = [bob, alice], ps_currentAccount = Some bob \<rparr> stateAlice
       = initSession env0 bob (stateAlice\<lparr>accounts := [bob, alice]\<rparr>)
   \<and> truthy (refreshJwt aliceRefreshed) \<and> did alice = did aliceRefreshed
   \<and> onUpdate env0 \<lparr> ps_accounts = [aliceRefreshed, bob], ps_currentAccount = Some aliceRefreshed \<rparr>
        stateAlice
       = Returned (stateAlice\<lparr>accounts := [aliceRefreshed, bob],
           agent := Client (aliceAgent\<lparr>ag_session :=
             Some (sessionAccountToAgentSession aliceRefreshed)\<rparr>)\<rparr>)
   \<and> onUpdate env0 \<lparr> ps_accounts = [alice, bob], ps_currentAccount = None \<rparr> stateAlice
       = Returned (clearCurrentAccount env0 (stateAlice\<lparr>accounts := [alice, bob]\<rparr>))
   \<and> \<not> truthy (refreshJwt bobSignedOut)
   \<and> onUpdate env0 \<lparr> ps_accounts = [alice, bobSignedOut], ps_currentAccount = Some bobSignedOut \<rparr>
        stateAlice
       = Returned (stateAlice\<lparr>accounts := [alice, bobSignedOut]\<rparr>)
   \<and> currentAccount env0 state0 = Inr None
   \<and> onUpdate env0 \<lparr> ps_accounts = [bob], ps_currentAccount = None \<rparr> state0
       = Returned (state0\<lparr>accounts := [bob]\<rparr>)"
proof -
  have cur: "currentAccount env0 stateAlice = Inr (Some alice)"
    by (simp add: currentAccount_def agentToSessionAccount_def sessionAccountToAgentSession_def
        isSessionDeactivated_def truthy_def or_empty_def env0_def tokenTable_def hrefTable_def
        stateAlice_def state0_def aliceAgent_def alice_def)
  have none: "currentAccount env0 state0 = Inr None"
    by (simp add: currentAccount_def state0_def)
  have ids: "truthy (refreshJwt bob)" "did alice \<noteq> did bob"
    "truthy (refreshJwt aliceRefreshed)" "did alice = did aliceRefreshed"
    "\<not> truthy (refreshJwt bobSignedOut)"
    by (simp_all add: truthy_def alice_def bob_def aliceRefreshed_def bobSignedOut_def)
  have ag: "agent stateAlice = Client aliceAgent"
    by (simp add: stateAlice_def)
  show ?thesis
    using onUpdate_precedence [OF cur,
        of "\<lparr> ps_accounts = [bob, alice], ps_currentAccount = Some bob \<rparr>"]
      onUpdate_precedence [OF cur,
        of "\<lparr> ps_accounts = [aliceRefreshed, bob], ps_currentAccount = Some aliceRefreshed \<rparr>"]
      onUpdate_precedence [OF cur,
        of "\<lparr> ps_accounts = [alice, bob], ps_currentAccount = None \<rparr>"]
      onUpdate_precedence [OF cur,
        of "\<lparr> ps_accounts = [alice, bobSignedOut], ps_currentAccount = Some bobSignedOut \<rparr>"]
      onUpdate_precedence [OF none,
        of "\<lparr> ps_accounts = [bob], ps_currentAccount = None \<rparr>"]
      cur none ids ag
    by auto
qed

section \<open>Uniqueness of ids in the roster\<close>

lemma distinct_ids_at_most_one:
  "distinct (map did xs) \<Longrightarrow> length (filter (\<lambda>x. did x = k) xs) \<le> 1"
proof (induction xs)
  case Nil
  then show ?case by simp
next
  case (Cons x xs)
  show ?case
  proof (cases "did x = k")
    case True
    have "k \<notin> did ` set xs" using True Cons.prems by simp
    then have "\<forall>y\<in>set xs. did y \<noteq> k" by blast
    then have "filter (\<lambda>y. did y = k) xs = []"
      by (simp add: filter_empty_conv)
    then show ?thesis using True by simp
  next
    case False
    then show ?thesis using Cons by simp
  qed
qed

lemma installedHandler_distinct:
  assumes "distinct (map did (accounts st))"
  shows "distinct (map did (accounts (state_of (installedHandler env a ev sess st))))"
  using assms distinct_upsertAccount
  by (auto simp: installedHandler_def persistSession_def persistSessionCallback_def
      clearCurrentAccount_def emitSessionDropped_def persistNextUpdate_def setAgent_def Let_def
      split: sum.splits)

lemma createAccount_distinct:
  assumes "distinct (map did (accounts st))"
  shows "distinct (map did (accounts (state_of (createAccount env props st))))"
proof (cases "agent_createAccount env props")
  case (Inl e)
  then show ?thesis using assms by (simp add: createAccount_def Let_def)
next
  case (Inr so)
  show ?thesis
  proof (cases so)
    case None
    then show ?thesis using Inr assms by (simp add: createAccount_def Let_def)
  next
    case (Some sess)
    show ?thesis
    proof (cases "isSessionDeactivated env (Some (sess_accessJwt sess))")
      case (Inl e)
      then show ?thesis using Inr Some assms by (simp add: createAccount_def Let_def)
    next
      case (Inr d)
      have ok: "agent_createAccount env props = Inr (Some sess)"
        using \<open>agent_createAccount env props = Inr so\<close> Some by simp
      show ?thesis
        using createAccount_fields(4) [OF ok Inr, of st] assms
        by (auto simp: distinct_map_filter)
    qed
  qed
qed

lemma onUpdate_distinct:
  assumes "distinct (map did (accounts st))" and "distinct (map did (ps_accounts ps))"
  shows "distinct (map did (accounts (state_of (onUpdate env ps st))))"
proof (cases "currentAccount env st")
  case (Inl e)
  then show ?thesis using assms(1) by (simp add: onUpdate_def)
next
  case (Inr cur)
  have st1: "distinct (map did (accounts (st\<lparr>accounts := ps_accounts ps\<rparr>)))"
    using assms(2) by simp
  show ?thesis
    using Inr st1 initSession_distinct [OF st1]
    by (auto simp: onUpdate_def setAccounts_def setAgent_def clearCurrentAccount_def
        persistNextUpdate_def Let_def split: option.splits active_client.splits)
qed

text \<open>
  C8. In a roster of pairwise distinct ids, \<^verbatim>\<open>upsertAccount\<close> leaves exactly one entry
  with the id of the account it is given: that account, at the front; the entries of other
  ids stay as they were, in their order; a second upsert of the same id replaces the first.
  The ids stay pairwise distinct under every operation that writes the roster: upsert,
  removal, full sign-out, the persist-session handler, \<^verbatim>\<open>initSession\<close>,
  \<^verbatim>\<open>createAccount\<close>, and the reconciliation with a snapshot whose ids are distinct.
\<close>

theorem roster_ids_stay_unique:
  assumes "distinct (map did (accounts st))"
  shows "distinct (map did (accounts (upsertAccount a st)))
     \<and> filter (\<lambda>x. did x = did a) (accounts (upsertAccount a st)) = [a]
     \<and> take 1 (accounts (upsertAccount a st)) = [a]
     \<and> filter (\<lambda>x. did x \<noteq> did a) (accounts (upsertAccount a st))
         = filter (\<lambda>x. did x \<noteq> did a) (accounts st)
     \<and> length (filter (\<lambda>x. did x = did a) (accounts st)) \<le> 1
     \<and> (did b = did a \<longrightarrow>
          accounts (upsertAccount b (upsertAccount a st))
            = b # filter (\<lambda>x. did x \<noteq> did a) (accounts st))
     \<and> distinct (map did (accounts (removeAccount a st)))
     \<and> distinct (map did (accounts (logout env st)))
     \<and> distinct (map did (accounts (state_of (installedHandler env a ev sess st))))
     \<and> distinct (map did (accounts (state_of (initSession env a st))))
     \<and> distinct (map did (accounts (state_of (createAccount env props st))))
     \<and> (distinct (map did (ps_accounts ps)) \<longrightarrow>
          distinct (map did (accounts (state_of (onUpdate env ps st)))))"
proof -
  have upsert: "accounts (upsertAccount a st) = a # filter (\<lambda>x. did x \<noteq> did a) (accounts st)"
    "\<And>s. accounts (upsertAccount b s) = b # filter (\<lambda>x. did x \<noteq> did b) (accounts s)"
    by (simp_all add: upsertAccount_def setAccounts_def persistNextUpdate_def)
  have one: "filter (\<lambda>x. did x = did a) (a # filter (\<lambda>x. did x \<noteq> did a) (accounts st)) = [a]"
    by (simp add: filter_empty_conv)
  have atmost: "length (filter (\<lambda>x. did x = did a) (accounts st)) \<le> 1"
    using assms by (rule distinct_ids_at_most_one)
  have others: "distinct (map did (accounts (removeAccount a st)))"
    "distinct (map did (accounts (logout env st)))"
    using assms
    by (simp_all add: removeAccount_def logout_def setAccounts_def persistNextUpdate_def
        clearCurrentAccount_def setAgent_def distinct_map_filter comp_def)
  show ?thesis
    using upsert one atmost others distinct_upsertAccount [OF assms, of a]
      installedHandler_distinct [OF assms] initSession_distinct [OF assms]
      createAccount_distinct [OF assms] onUpdate_distinct [OF assms]
    by simp
qed

theorem roster_ids_stay_unique_witness:
  "distinct (map did (accounts stateAlice))
   \<and> did aliceRefreshed = did alice \<and> aliceRefreshed \<noteq> alice
   \<and> accounts (upsertAccount bob stateAlice) = [bob, alice]
   \<and> accounts (upsertAccount aliceRefreshed (upsertAccount alice stateAlice))
       = [aliceRefreshed, bob]
   \<and> distinct (map did (accounts (upsertAccount bob stateAlice)))"
proof -
  have d: "distinct (map did (accounts stateAlice))"
    by (simp add: stateAlice_def state0_def alice_def bob_def)
  have e: "did aliceRefreshed = did alice" "aliceRefreshed \<noteq> alice"
    "filter (\<lambda>x. did x \<noteq> did alice) (accounts stateAlice) = [bob]"
    "filter (\<lambda>x. did x \<noteq> did bob) (accounts stateAlice) = [alice]"
    "take 1 (accounts (upsertAccount bob stateAlice)) = [bob]"
    by (simp_all add: aliceRefreshed_def stateAlice_def state0_def alice_def bob_def
        upsertAccount_def setAccounts_def persistNextUpdate_def)
  show ?thesis
    using roster_ids_stay_unique [OF d, of alice aliceRefreshed]
      roster_ids_stay_unique [OF d, of bob] d e
    by (auto simp: upsertAccount_def setAccounts_def persistNextUpdate_def)
qed

end
